theory Spec2Isabelle
  imports Main
begin

section \<open>The Book Archive: account store and generated list pages\<close>

text \<open>
  A shallow embedding of \<^verbatim>\<open>server.js\<close>. Strings are byte strings (the UTF-8 text that
  the server reads and writes). A request field is a \<^typ>\<open>string option\<close>: \<open>None\<close> is a
  field that is absent from the JSON body (JavaScript's \<^verbatim>\<open>undefined\<close>); JSON values of other
  types are outside the model. The two JSON files hold typed record lists.

  What the server calls but does not define is taken as a parameter (record \<open>env\<close>), so
  that every statement holds whatever these functions compute: the built-in
  \<^verbatim>\<open>String.prototype.toLowerCase\<close> with its Unicode case table, the functions \<^verbatim>\<open>isLength\<close> and
  \<^verbatim>\<open>isStrongPassword\<close> of the validation library with their way of counting characters, the
  identifier drawn by \<^verbatim>\<open>uuidv4()\<close>, the salted digest computed by \<^verbatim>\<open>bcrypt.hash(_, 10)\<close>, the
  verdict of \<^verbatim>\<open>bcrypt.compare\<close>, and the two time stamps printed by
  \<^verbatim>\<open>new Date().toLocaleString()\<close>.
\<close>

subsection \<open>String helpers\<close>

text \<open>\<^verbatim>\<open>s.replace(/c/g, r)\<close> for a one-character pattern.\<close>

definition replaceAll :: "char \<Rightarrow> string \<Rightarrow> string \<Rightarrow> string" where
  "replaceAll c r s = concat (map (\<lambda>x. if x = c then r else [x]) s)"

text \<open>\<^verbatim>\<open>Array.prototype.join\<close>.\<close>

fun join :: "string \<Rightarrow> string list \<Rightarrow> string" where
  "join sep [] = []"
| "join sep [x] = x"
| "join sep (x # y # ys) = x @ sep @ join sep (y # ys)"

text \<open>JavaScript's \<^verbatim>\<open>a || b\<close> on strings: the empty string is falsy.\<close>

definition or_else :: "string \<Rightarrow> string \<Rightarrow> string" where
  "or_else a b = (if a = [] then b else a)"

text \<open>\<^verbatim>\<open>v || ''\<close> on a request field.\<close>

definition or_empty :: "string option \<Rightarrow> string" where
  "or_empty v = (case v of None \<Rightarrow> [] | Some s \<Rightarrow> s)"

subsection \<open>Records and sanitized profiles\<close>

record librarian =
  lib_id :: string
  lib_username :: string
  lib_fullname :: string
  lib_passwordHash :: string

record student =
  stud_id :: string
  stud_name :: string
  stud_grade :: string
  stud_section :: string
  stud_passHash :: string

datatype user = Librarian librarian | Student student

text \<open>Property reads on a stored object; a property the object does not have reads as
  \<^verbatim>\<open>undefined\<close> (\<open>None\<close>).\<close>

fun user_id :: "user \<Rightarrow> string" where
  "user_id (Librarian l) = lib_id l"
| "user_id (Student s) = stud_id s"

fun user_username :: "user \<Rightarrow> string option" where
  "user_username (Librarian l) = Some (lib_username l)"
| "user_username (Student s) = None"

fun user_fullname :: "user \<Rightarrow> string option" where
  "user_fullname (Librarian l) = Some (lib_fullname l)"
| "user_fullname (Student s) = None"

fun user_name :: "user \<Rightarrow> string option" where
  "user_name (Librarian l) = None"
| "user_name (Student s) = Some (stud_name s)"

fun user_grade :: "user \<Rightarrow> string option" where
  "user_grade (Librarian l) = None"
| "user_grade (Student s) = Some (stud_grade s)"

fun user_section :: "user \<Rightarrow> string option" where
  "user_section (Librarian l) = None"
| "user_section (Student s) = Some (stud_section s)"

text \<open>The object built by \<^verbatim>\<open>sanitizeUser\<close>: \<open>LibrarianProfile id username fullname\<close> is
  \<^verbatim>\<open>{id, username, fullname, role: 'librarian'}\<close> and \<open>StudentProfile id name grade section\<close> is
  \<^verbatim>\<open>{id, name, grade, section, role: 'student'}\<close>. Neither has a field for the hash.\<close>

datatype profile =
  LibrarianProfile (profile_id: string) "string option" "string option"
| StudentProfile (profile_id: string) "string option" "string option" "string option"

definition sanitizeUser :: "user \<Rightarrow> string \<Rightarrow> profile" where
  "sanitizeUser user role =
     (if role = ''librarian''
      then LibrarianProfile (user_id user) (user_username user) (user_fullname user)
      else StudentProfile (user_id user) (user_name user) (user_grade user) (user_section user))"

subsection \<open>HTML generation\<close>

definition escapeHtml :: "string \<Rightarrow> string" where
  \<open>escapeHtml s =
     (if s = [] then []
      else replaceAll (CHR 0x22) ''&quot;''
            (replaceAll (CHR ''>'') ''&gt;''
              (replaceAll (CHR ''<'') ''&lt;''
                (replaceAll (CHR ''&'') ''&amp;'' s))))\<close>

definition ORIGINAL_STUDENT_PAGE :: string where
  "ORIGINAL_STUDENT_PAGE = ''/mnt/data/Therese Student.html''"

definition ORIGINAL_LIBRARIAN_PAGE :: string where
  "ORIGINAL_LIBRARIAN_PAGE = ''/mnt/data/Therese Librarian.html''"

text \<open>The literal parts of the four template strings, cut at the interpolations.\<close>

definition student_card_1 :: string where
  \<open>student_card_1 = concat
    [[CHR 0x0A],
     ''    <div class="card">'',
     [CHR 0x0A],
     ''      <h3>'']\<close>

definition student_card_2 :: string where
  \<open>student_card_2 = concat
    [''</h3>'',
     [CHR 0x0A],
     ''      <p><strong>Grade:</strong> '']\<close>

definition student_card_3 :: string where
  \<open>student_card_3 = concat
    [''</p>'',
     [CHR 0x0A],
     ''      <p><strong>Section:</strong> '']\<close>

definition student_card_4 :: string where
  \<open>student_card_4 = concat
    [''</p>'',
     [CHR 0x0A],
     ''    </div>'',
     [CHR 0x0A],
     ''  '']\<close>

definition librarian_card_1 :: string where
  \<open>librarian_card_1 = concat
    [[CHR 0x0A],
     ''    <div class="card">'',
     [CHR 0x0A],
     ''      <h3>'']\<close>

definition librarian_card_2 :: string where
  \<open>librarian_card_2 = concat
    [''</h3>'',
     [CHR 0x0A],
     ''      <p><strong>Username:</strong> '']\<close>

definition librarian_card_3 :: string where
  \<open>librarian_card_3 = concat
    [''</p>'',
     [CHR 0x0A],
     ''    </div>'',
     [CHR 0x0A],
     ''  '']\<close>

definition students_page_1 :: string where
  \<open>students_page_1 = concat
    [''<!doctype html>'',
     [CHR 0x0A],
     ''  <html>'',
     [CHR 0x0A],
     ''  <head>'',
     [CHR 0x0A],
     ''    <meta charset="utf-8"/>'',
     [CHR 0x0A],
     ''    <meta name="viewport" content="width=device-width,initial-scale=1"/>'',
     [CHR 0x0A],
     ''    <title>Students '',
     [CHR 0xC3, CHR 0xA2, CHR 0xE2, CHR 0x82, CHR 0xAC, CHR 0xE2, CHR 0x80, CHR 0x9D],
     '' List</title>'',
     [CHR 0x0A],
     ''    <style>'',
     [CHR 0x0A],
     ''      @import url('',
     [CHR 0x27],
     ''https://fonts.googleapis.com/css2?family=Cinzel+Decorative:wght@700&family=Roboto&display=swap'',
     [CHR 0x27],
     '');'',
     [CHR 0x0A],
     ''      body{font-family:Roboto,Arial,Helvetica,sans-serif;background:#f5deb3;margin:0;padding:24px;color:#3b2f2f}'',
     [CHR 0x0A],
     ''      header{font-family:'',
     [CHR 0x27],
     ''Cinzel Decorative'',
     [CHR 0x27],
     '',serif;font-size:28px;margin-bottom:12px}'',
     [CHR 0x0A],
     ''      .top-links{margin-bottom:18px}'',
     [CHR 0x0A],
     ''      .top-links a{margin-right:12px;color:#4b2e05;font-weight:600;text-decoration:none}'',
     [CHR 0x0A],
     ''      .container{display:flex;flex-wrap:wrap;gap:16px}'',
     [CHR 0x0A],
     ''      .card{background:#fff;padding:16px;border-radius:10px;box-shadow:0 4px 12px rgba(0,0,0,0.08);width:220px}'',
     [CHR 0x0A],
     ''      .card h3{margin:0 0 6px 0}'',
     [CHR 0x0A],
     ''      footer{margin-top:28px;color:#666;font-size:13px}'',
     [CHR 0x0A],
     ''    </style>'',
     [CHR 0x0A],
     ''  </head>'',
     [CHR 0x0A],
     ''  <body>'',
     [CHR 0x0A],
     ''    <header>'',
     [CHR 0xC3, CHR 0xB0, CHR 0xC5, CHR 0xB8, CHR 0xE2, CHR 0x80, CHR 0x9C, CHR 0xC5, CHR 0xA1],
     '' Registered Students</header>'',
     [CHR 0x0A],
     ''    <div class="top-links">'',
     [CHR 0x0A],
     ''      <a href="'']\<close>

definition students_page_2 :: string where
  \<open>students_page_2 = concat
    [''">Open Student Portal</a>'',
     [CHR 0x0A],
     ''      <a href="'']\<close>

definition students_page_3 :: string where
  \<open>students_page_3 = concat
    [''">Open Librarian Portal</a>'',
     [CHR 0x0A],
     ''      <a href="/therese-student.html">Back to Student Portal (public)</a>'',
     [CHR 0x0A],
     ''      <a href="/therese-librarian.html">Back to Librarian Portal (public)</a>'',
     [CHR 0x0A],
     ''    </div>'',
     [CHR 0x0A],
     ''    <div class="container">'',
     [CHR 0x0A],
     ''      '']\<close>

definition students_page_4 :: string where
  \<open>students_page_4 = concat
    [[CHR 0x0A],
     ''    </div>'',
     [CHR 0x0A],
     ''    <footer>Generated on '']\<close>

definition students_page_5 :: string where
  \<open>students_page_5 = concat
    [''</footer>'',
     [CHR 0x0A],
     ''  </body>'',
     [CHR 0x0A],
     ''  </html>'']\<close>

definition librarians_page_1 :: string where
  \<open>librarians_page_1 = concat
    [''<!doctype html>'',
     [CHR 0x0A],
     ''  <html>'',
     [CHR 0x0A],
     ''  <head>'',
     [CHR 0x0A],
     ''    <meta charset="utf-8"/>'',
     [CHR 0x0A],
     ''    <meta name="viewport" content="width=device-width,initial-scale=1"/>'',
     [CHR 0x0A],
     ''    <title>Librarians '',
     [CHR 0xC3, CHR 0xA2, CHR 0xE2, CHR 0x82, CHR 0xAC, CHR 0xE2, CHR 0x80, CHR 0x9D],
     '' List</title>'',
     [CHR 0x0A],
     ''    <style>'',
     [CHR 0x0A],
     ''      @import url('',
     [CHR 0x27],
     ''https://fonts.googleapis.com/css2?family=Cinzel+Decorative:wght@700&family=Roboto&display=swap'',
     [CHR 0x27],
     '');'',
     [CHR 0x0A],
     ''      body{font-family:Roboto,Arial,Helvetica,sans-serif;background:#f5deb3;margin:0;padding:24px;color:#3b2f2f}'',
     [CHR 0x0A],
     ''      header{font-family:'',
     [CHR 0x27],
     ''Cinzel Decorative'',
     [CHR 0x27],
     '',serif;font-size:28px;margin-bottom:12px}'',
     [CHR 0x0A],
     ''      .top-links{margin-bottom:18px}'',
     [CHR 0x0A],
     ''      .top-links a{margin-right:12px;color:#4b2e05;font-weight:600;text-decoration:none}'',
     [CHR 0x0A],
     ''      .container{display:flex;flex-wrap:wrap;gap:16px}'',
     [CHR 0x0A],
     ''      .card{background:#fff;padding:16px;border-radius:10px;box-shadow:0 4px 12px rgba(0,0,0,0.08);width:260px}'',
     [CHR 0x0A],
     ''      .card h3{margin:0 0 6px 0}'',
     [CHR 0x0A],
     ''      footer{margin-top:28px;color:#666;font-size:13px}'',
     [CHR 0x0A],
     ''    </style>'',
     [CHR 0x0A],
     ''  </head>'',
     [CHR 0x0A],
     ''  <body>'',
     [CHR 0x0A],
     ''    <header>'',
     [CHR 0xC3, CHR 0xB0, CHR 0xC5, CHR 0xB8, CHR 0xE2, CHR 0x80, CHR 0x9C, CHR 0xE2, CHR 0x80, CHR 0x93],
     '' Registered Librarians</header>'',
     [CHR 0x0A],
     ''    <div class="top-links">'',
     [CHR 0x0A],
     ''      <a href="'']\<close>

definition librarians_page_2 :: string where
  \<open>librarians_page_2 = concat
    [''">Open Librarian Portal</a>'',
     [CHR 0x0A],
     ''      <a href="'']\<close>

definition librarians_page_3 :: string where
  \<open>librarians_page_3 = concat
    [''">Open Student Portal</a>'',
     [CHR 0x0A],
     ''      <a href="/therese-librarian.html">Back to Librarian Portal (public)</a>'',
     [CHR 0x0A],
     ''      <a href="/therese-student.html">Back to Student Portal (public)</a>'',
     [CHR 0x0A],
     ''    </div>'',
     [CHR 0x0A],
     ''    <div class="container">'',
     [CHR 0x0A],
     ''      '']\<close>

definition librarians_page_4 :: string where
  \<open>librarians_page_4 = concat
    [[CHR 0x0A],
     ''    </div>'',
     [CHR 0x0A],
     ''    <footer>Generated on '']\<close>

definition librarians_page_5 :: string where
  \<open>librarians_page_5 = concat
    [''</footer>'',
     [CHR 0x0A],
     ''  </body>'',
     [CHR 0x0A],
     ''  </html>'']\<close>

text \<open>One card per record: the callbacks of \<^verbatim>\<open>students.map\<close> and \<^verbatim>\<open>libs.map\<close>.\<close>

definition student_card :: "student \<Rightarrow> string" where
  "student_card s = concat
     [student_card_1, escapeHtml (stud_name s),
      student_card_2, escapeHtml (stud_grade s),
      student_card_3, escapeHtml (stud_section s),
      student_card_4]"

definition librarian_card :: "librarian \<Rightarrow> string" where
  "librarian_card l = concat
     [librarian_card_1, escapeHtml (or_else (lib_fullname l) (lib_username l)),
      librarian_card_2, escapeHtml (lib_username l),
      librarian_card_3]"

definition students_cardsHtml :: "student list \<Rightarrow> string" where
  "students_cardsHtml students = join [CHR 0x0A] (map student_card students)"

definition librarians_cardsHtml :: "librarian list \<Rightarrow> string" where
  "librarians_cardsHtml libs = join [CHR 0x0A] (map librarian_card libs)"

text \<open>The page texts; \<open>now\<close> is the time stamp of the footer.\<close>

definition students_html :: "string \<Rightarrow> student list \<Rightarrow> string" where
  "students_html now students = concat
     [students_page_1, escapeHtml ORIGINAL_STUDENT_PAGE,
      students_page_2, escapeHtml ORIGINAL_LIBRARIAN_PAGE,
      students_page_3, or_else (students_cardsHtml students) ''<p>No student accounts yet.</p>'',
      students_page_4, now,
      students_page_5]"

definition librarians_html :: "string \<Rightarrow> librarian list \<Rightarrow> string" where
  "librarians_html now libs = concat
     [librarians_page_1, escapeHtml ORIGINAL_LIBRARIAN_PAGE,
      librarians_page_2, escapeHtml ORIGINAL_STUDENT_PAGE,
      librarians_page_3, or_else (librarians_cardsHtml libs) ''<p>No librarian accounts yet.</p>'',
      librarians_page_4, now,
      librarians_page_5]"

subsection \<open>Files and failing operations\<close>

datatype path = LIB_FILE | STUD_FILE | STUDENTS_LIST | LIBRARIANS_LIST

text \<open>What an awaited call can throw: a failed write, a read of a file that is not there, the
  error of \<^verbatim>\<open>bcrypt.compare\<close> on a missing argument, and a method call on
  \<^verbatim>\<open>undefined\<close>.\<close>

datatype exn = WriteFailed path | ReadFailed path | BcryptArguments | TypeError

text \<open>The four files the server owns (\<open>None\<close>: the file does not exist) and the paths at
  which a write fails. Directory creation and reads of existing files are taken to
  succeed.\<close>

record fsys =
  lib_json :: "librarian list option"
  stud_json :: "student list option"
  students_list :: "string option"
  librarians_list :: "string option"
  unwritable :: "path \<Rightarrow> bool"

type_synonym 'a io = "fsys \<Rightarrow> (exn + 'a) \<times> fsys"

definition io_return :: "'a \<Rightarrow> 'a io" where
  "io_return x fs = (Inr x, fs)"

definition io_throw :: "exn \<Rightarrow> 'a io" where
  "io_throw e fs = (Inl e, fs)"

text \<open>\<^verbatim>\<open>const x = await m; k(x)\<close>: a throw in \<open>m\<close> skips \<open>k\<close> and keeps the files as \<open>m\<close>
  left them.\<close>

definition io_bind :: "'a io \<Rightarrow> ('a \<Rightarrow> 'b io) \<Rightarrow> 'b io" where
  "io_bind m k fs = (case m fs of (Inl e, fs') \<Rightarrow> (Inl e, fs') | (Inr x, fs') \<Rightarrow> k x fs')"

definition readJson_LIB :: "librarian list io" where
  "readJson_LIB fs = (case lib_json fs of None \<Rightarrow> (Inl (ReadFailed LIB_FILE), fs) | Some libs \<Rightarrow> (Inr libs, fs))"

definition readJson_STUD :: "student list io" where
  "readJson_STUD fs = (case stud_json fs of None \<Rightarrow> (Inl (ReadFailed STUD_FILE), fs) | Some studs \<Rightarrow> (Inr studs, fs))"

definition writeJson_LIB :: "librarian list \<Rightarrow> unit io" where
  "writeJson_LIB libs fs =
     (if unwritable fs LIB_FILE then (Inl (WriteFailed LIB_FILE), fs)
      else (Inr (), fs\<lparr>lib_json := Some libs\<rparr>))"

definition writeJson_STUD :: "student list \<Rightarrow> unit io" where
  "writeJson_STUD studs fs =
     (if unwritable fs STUD_FILE then (Inl (WriteFailed STUD_FILE), fs)
      else (Inr (), fs\<lparr>stud_json := Some studs\<rparr>))"

definition ensureFiles :: "unit io" where
  "ensureFiles =
     io_bind (\<lambda>fs. if lib_json fs = None then writeJson_LIB [] fs else io_return () fs) (\<lambda>_.
     (\<lambda>fs. if stud_json fs = None then writeJson_STUD [] fs else io_return () fs))"

definition generateStudentsListPage :: "string \<Rightarrow> student list \<Rightarrow> unit io" where
  "generateStudentsListPage now students fs =
     (if unwritable fs STUDENTS_LIST then (Inl (WriteFailed STUDENTS_LIST), fs)
      else (Inr (), fs\<lparr>students_list := Some (students_html now students)\<rparr>))"

definition generateLibrariansListPage :: "string \<Rightarrow> librarian list \<Rightarrow> unit io" where
  "generateLibrariansListPage now libs fs =
     (if unwritable fs LIBRARIANS_LIST then (Inl (WriteFailed LIBRARIANS_LIST), fs)
      else (Inr (), fs\<lparr>librarians_list := Some (librarians_html now libs)\<rparr>))"

subsection \<open>The environment of a request\<close>

text \<open>\<open>toLowerCase env s\<close> is \<^verbatim>\<open>s.toLowerCase()\<close>; \<open>isLength env n s\<close> is the validator
  \<^verbatim>\<open>isLength({ min: n })\<close> on the text \<open>s\<close>; \<open>isStrongPassword env s\<close> is the validator
  \<^verbatim>\<open>isStrongPassword\<close> with the options of the librarian route; \<open>bcrypt_hash env s\<close> is the
  digest of \<open>s\<close> under the salt drawn for this request.\<close>

record env =
  toLowerCase :: "string \<Rightarrow> string"
  isLength :: "nat \<Rightarrow> string \<Rightarrow> bool"
  isStrongPassword :: "string \<Rightarrow> bool"
  uuidv4 :: string
  bcrypt_hash :: "string \<Rightarrow> string"
  bcrypt_compare :: "string \<Rightarrow> string \<Rightarrow> bool"
  now_students :: string
  now_librarians :: string

definition regenerateListFiles :: "env \<Rightarrow> unit io" where
  "regenerateListFiles env =
     io_bind readJson_STUD (\<lambda>students.
     io_bind readJson_LIB (\<lambda>libs.
     io_bind (generateStudentsListPage (now_students env) students) (\<lambda>_.
     generateLibrariansListPage (now_librarians env) libs)))"

text \<open>\<^verbatim>\<open>bcrypt.compare(data, hash)\<close> rejects when \<open>data\<close> is missing.\<close>

definition compare :: "env \<Rightarrow> string option \<Rightarrow> string \<Rightarrow> bool io" where
  "compare env data hash =
     (case data of None \<Rightarrow> io_throw BcryptArguments
      | Some secret \<Rightarrow> io_return (bcrypt_compare env secret hash))"

subsection \<open>Responses\<close>

text \<open>\<open>Json_user p\<close> is \<^verbatim>\<open>res.json({ user: p })\<close>; \<open>Json_error c msg\<close> is
  \<^verbatim>\<open>res.status(c).json({ error: msg })\<close>; \<open>Json_errors\<close> is the 400 answer carrying the
  validation errors; \<open>Rejected e\<close> is a handler whose promise rejects with \<open>e\<close>, so that no
  answer is sent.\<close>

datatype response = Json_user profile | Json_error nat string | Json_errors | Rejected exn

definition respond :: "response io \<Rightarrow> fsys \<Rightarrow> response \<times> fsys" where
  "respond m fs = (case m fs of (Inl e, fs') \<Rightarrow> (Rejected e, fs') | (Inr r, fs') \<Rightarrow> (r, fs'))"

text \<open>The error kinds of the specification, read off the answer.\<close>

definition DuplicateKey :: "response \<Rightarrow> bool" where
  "DuplicateKey r = (case r of Json_error c msg \<Rightarrow> c = 409 | _ \<Rightarrow> False)"

definition InvalidCredentials :: "response \<Rightarrow> bool" where
  "InvalidCredentials r = (case r of Json_error c msg \<Rightarrow> c = 401 | _ \<Rightarrow> False)"

definition NotFound :: "response \<Rightarrow> bool" where
  "NotFound r = (case r of Json_error c msg \<Rightarrow> c = 404 | _ \<Rightarrow> False)"

subsection \<open>Request validation (express-validator chains)\<close>

text \<open>The chains of the two registration routes. A validator is applied to the text of the
  field, and an absent field is validated as the empty string. The pattern of the username
  chain names ASCII characters only, so it is decided on the bytes.\<close>

definition is_lower :: "char \<Rightarrow> bool" where
  "is_lower c = (let n = (of_char c :: nat) in 97 \<le> n \<and> n \<le> 122)"

definition is_upper :: "char \<Rightarrow> bool" where
  "is_upper c = (let n = (of_char c :: nat) in 65 \<le> n \<and> n \<le> 90)"

definition is_digit :: "char \<Rightarrow> bool" where
  "is_digit c = (let n = (of_char c :: nat) in 48 \<le> n \<and> n \<le> 57)"

text \<open>\<^verbatim>\<open>matches(/^[a-zA-Z0-9_\-]+$/)\<close>.\<close>

definition matches_username :: "string option \<Rightarrow> bool" where
  "matches_username v =
     (or_empty v \<noteq> [] \<and>
      list_all (\<lambda>c. is_lower c \<or> is_upper c \<or> is_digit c \<or> c = CHR ''_'' \<or> c = CHR ''-'') (or_empty v))"

definition librarian_register_valid ::
  "env \<Rightarrow> string option \<Rightarrow> string option \<Rightarrow> string option \<Rightarrow> bool" where
  "librarian_register_valid env username fullname password =
     (isLength env 3 (or_empty username) \<and> matches_username username \<and>
      isLength env 3 (or_empty fullname) \<and> isStrongPassword env (or_empty password))"

definition student_register_valid ::
  "env \<Rightarrow> string option \<Rightarrow> string option \<Rightarrow> string option \<Rightarrow> string option \<Rightarrow> bool" where
  "student_register_valid env name grade section passcode =
     (isLength env 3 (or_empty name) \<and> isLength env 1 (or_empty grade) \<and>
      isLength env 1 (or_empty section) \<and> isLength env 4 (or_empty passcode))"

subsection \<open>Routes\<close>

text \<open>\<^verbatim>\<open>POST /api/librarian/register\<close>. The last case stands for a method call on an absent
  field; the chains of the route reject every such body before.\<close>

definition librarian_register ::
  "env \<Rightarrow> string option \<Rightarrow> string option \<Rightarrow> string option \<Rightarrow> fsys \<Rightarrow> response \<times> fsys" where
  "librarian_register env username fullname password =
     respond (io_bind ensureFiles (\<lambda>_.
       if \<not> librarian_register_valid env username fullname password then io_return Json_errors
       else (case (username, fullname, password) of
         (Some username', Some fullname', Some password') \<Rightarrow>
           io_bind readJson_LIB (\<lambda>libs.
             if find (\<lambda>l. toLowerCase env (lib_username l) = toLowerCase env username') libs \<noteq> None
             then io_return (Json_error 409 ''Username already exists'')
             else
               (let hash = bcrypt_hash env password';
                    user = \<lparr>lib_id = uuidv4 env, lib_username = username',
                            lib_fullname = fullname', lib_passwordHash = hash\<rparr>
                in io_bind (writeJson_LIB (libs @ [user])) (\<lambda>_.
                   io_bind (regenerateListFiles env) (\<lambda>_.
                   io_return (Json_user (sanitizeUser (Librarian user) ''librarian''))))))
       | _ \<Rightarrow> io_throw TypeError)))"

text \<open>\<^verbatim>\<open>POST /api/librarian/login\<close>. The validation chains of the route are declared, but
  their result is never read.\<close>

definition librarian_login ::
  "env \<Rightarrow> string option \<Rightarrow> string option \<Rightarrow> fsys \<Rightarrow> response \<times> fsys" where
  "librarian_login env username password =
     respond (io_bind ensureFiles (\<lambda>_.
       io_bind readJson_LIB (\<lambda>libs.
         (case find (\<lambda>u. toLowerCase env (lib_username u) = toLowerCase env (or_empty username)) libs of
            None \<Rightarrow> io_return (Json_error 401 ''Invalid credentials'')
          | Some user \<Rightarrow>
              io_bind (compare env password (lib_passwordHash user)) (\<lambda>ok.
                if \<not> ok then io_return (Json_error 401 ''Invalid credentials'')
                else io_return (Json_user (sanitizeUser (Librarian user) ''librarian'')))))))"

text \<open>\<^verbatim>\<open>POST /api/student/register\<close>, built like the librarian route.\<close>

definition student_register ::
  "env \<Rightarrow> string option \<Rightarrow> string option \<Rightarrow> string option \<Rightarrow> string option \<Rightarrow> fsys
     \<Rightarrow> response \<times> fsys" where
  "student_register env name grade section passcode =
     respond (io_bind ensureFiles (\<lambda>_.
       if \<not> student_register_valid env name grade section passcode then io_return Json_errors
       else (case (name, grade, section, passcode) of
         (Some name', Some grade', Some section', Some passcode') \<Rightarrow>
           io_bind readJson_STUD (\<lambda>studs.
             if find (\<lambda>s. toLowerCase env (stud_name s) = toLowerCase env name' \<and> stud_grade s = grade' \<and>
                           toLowerCase env (stud_section s) = toLowerCase env section') studs \<noteq> None
             then io_return (Json_error 409 ''Student account already exists'')
             else
               (let hash = bcrypt_hash env passcode';
                    user = \<lparr>stud_id = uuidv4 env, stud_name = name', stud_grade = grade',
                            stud_section = section', stud_passHash = hash\<rparr>
                in io_bind (writeJson_STUD (studs @ [user])) (\<lambda>_.
                   io_bind (regenerateListFiles env) (\<lambda>_.
                   io_return (Json_user (sanitizeUser (Student user) ''student''))))))
       | _ \<Rightarrow> io_throw TypeError)))"

text \<open>\<^verbatim>\<open>POST /api/student/login\<close>. \<^verbatim>\<open>if (passcode)\<close> is false for a missing passcode and
  for the empty string.\<close>

definition student_login ::
  "env \<Rightarrow> string option \<Rightarrow> string option \<Rightarrow> string option \<Rightarrow> string option \<Rightarrow> fsys
     \<Rightarrow> response \<times> fsys" where
  "student_login env name grade section passcode =
     respond (io_bind ensureFiles (\<lambda>_.
       io_bind readJson_STUD (\<lambda>studs.
         (case find (\<lambda>s. toLowerCase env (stud_name s) = toLowerCase env (or_empty name) \<and>
                          Some (stud_grade s) = grade \<and>
                          toLowerCase env (stud_section s) = toLowerCase env (or_empty section)) studs of
            None \<Rightarrow> io_return (Json_error 401 ''Invalid credentials'')
          | Some user \<Rightarrow>
              if or_empty passcode \<noteq> []
              then io_bind (compare env passcode (stud_passHash user)) (\<lambda>ok.
                     if \<not> ok then io_return (Json_error 401 ''Invalid credentials'')
                     else io_return (Json_user (sanitizeUser (Student user) ''student'')))
              else io_return (Json_user (sanitizeUser (Student user) ''student''))))))"

text \<open>\<^verbatim>\<open>GET /api/profile/:role/:id\<close>. Both route parameters are always strings.\<close>

definition readJson :: "path \<Rightarrow> user list io" where
  "readJson file =
     (if file = LIB_FILE then io_bind readJson_LIB (\<lambda>libs. io_return (map Librarian libs))
      else io_bind readJson_STUD (\<lambda>studs. io_return (map Student studs)))"

definition get_profile :: "string \<Rightarrow> string \<Rightarrow> fsys \<Rightarrow> response \<times> fsys" where
  "get_profile role ident =
     respond (io_bind ensureFiles (\<lambda>_.
       (let file = (if role = ''librarian'' then LIB_FILE else STUD_FILE)
        in io_bind (readJson file) (\<lambda>list.
           (case find (\<lambda>u. user_id u = ident) list of
              None \<Rightarrow> io_return (Json_error 404 ''Not found'')
            | Some user \<Rightarrow> io_return (Json_user (sanitizeUser user role)))))))"

subsection \<open>Reading a page back\<close>

text \<open>\<^verbatim>\<open>String.prototype.startsWith\<close>, with the prefix as first argument.\<close>

fun starts_with :: "string \<Rightarrow> string \<Rightarrow> bool" where
  "starts_with [] s = True"
| "starts_with (x # xs) [] = False"
| "starts_with (x # xs) (y # ys) = (x = y \<and> starts_with xs ys)"

text \<open>The four character references that \<open>escapeHtml\<close> writes, and the check that every
  ampersand of a text begins one of them.\<close>

definition entity_start :: "string \<Rightarrow> bool" where
  \<open>entity_start s =
     (starts_with ''&amp;'' s \<or> starts_with ''&lt;'' s \<or> starts_with ''&gt;'' s \<or>
      starts_with ''&quot;'' s)\<close>

fun amps_escaped :: "string \<Rightarrow> bool" where
  "amps_escaped [] = True"
| "amps_escaped (c # cs) = ((if c = CHR ''&'' then entity_start (c # cs) else True) \<and> amps_escaped cs)"

text \<open>The characters that delimit tags and attribute values.\<close>

definition structural :: "char \<Rightarrow> bool" where
  \<open>structural c = (c = CHR ''<'' \<or> c = CHR ''>'' \<or> c = CHR 0x22)\<close>

text \<open>What a browser shows for an escaped text: each of the four character references is
  read back as its character.\<close>

fun unescapeHtml :: "string \<Rightarrow> string" where
  "unescapeHtml [] = []"
| "unescapeHtml (c # cs) =
     (if starts_with ''&amp;'' (c # cs) then CHR ''&'' # unescapeHtml (drop 4 cs)
      else if starts_with ''&lt;'' (c # cs) then CHR ''<'' # unescapeHtml (drop 3 cs)
      else if starts_with ''&gt;'' (c # cs) then CHR ''>'' # unescapeHtml (drop 3 cs)
      else if starts_with ''&quot;'' (c # cs) then CHR 0x22 # unescapeHtml (drop 5 cs)
      else c # unescapeHtml cs)"

text \<open>The one-pass form of \<open>escapeHtml\<close>, used in the proofs.\<close>

definition escape_char :: "char \<Rightarrow> string" where
  \<open>escape_char c =
     (if c = CHR ''&'' then ''&amp;'' else if c = CHR ''<'' then ''&lt;''
      else if c = CHR ''>'' then ''&gt;'' else if c = CHR 0x22 then ''&quot;'' else [c])\<close>

text \<open>\<open>between m stop html\<close> lists, in order, the text that follows each occurrence of the
  marker \<open>m\<close> up to the next \<open>stop\<close> character; \<open>h3_texts\<close> are the headings of a page,
  one per card.\<close>

fun between :: "string \<Rightarrow> char \<Rightarrow> string \<Rightarrow> string list" where
  "between m stop [] = []"
| "between m stop (c # cs) =
     (if starts_with m (c # cs)
      then takeWhile (\<lambda>x. x \<noteq> stop) (drop (length m) (c # cs)) # between m stop cs
      else between m stop cs)"

definition h3_texts :: "string \<Rightarrow> string list" where
  "h3_texts html = between ''<h3>'' (CHR ''<'') html"

subsection \<open>The stored sequences\<close>

text \<open>The record sequence of a kind as a request finds it: \<open>ensureFiles\<close> makes a missing file
  an empty sequence.\<close>

definition librarians_of :: "fsys \<Rightarrow> librarian list" where
  "librarians_of fs = (case lib_json fs of None \<Rightarrow> [] | Some libs \<Rightarrow> libs)"

definition students_of :: "fsys \<Rightarrow> student list" where
  "students_of fs = (case stud_json fs of None \<Rightarrow> [] | Some studs \<Rightarrow> studs)"

subsection \<open>A small store for the concrete instances\<close>

text \<open>Stand-ins for the library functions in the concrete instances, which use ASCII text
  only. On ASCII text lower-casing maps the letters A to Z to a to z and keeps every other
  character, the length that the validators compare is the number of characters, and a
  strong password has eight characters or more with a lower-case letter, an upper-case letter
  and a digit among them.\<close>

definition ascii_toLowerCase_char :: "char \<Rightarrow> char" where
  "ascii_toLowerCase_char c =
     (case map_of (zip ''ABCDEFGHIJKLMNOPQRSTUVWXYZ'' ''abcdefghijklmnopqrstuvwxyz'') c of
        None \<Rightarrow> c
      | Some l \<Rightarrow> l)"

definition ascii_toLowerCase :: "string \<Rightarrow> string" where
  "ascii_toLowerCase s = map ascii_toLowerCase_char s"

definition ascii_isLength :: "nat \<Rightarrow> string \<Rightarrow> bool" where
  "ascii_isLength n s = (n \<le> length s)"

definition ascii_isStrongPassword :: "string \<Rightarrow> bool" where
  "ascii_isStrongPassword s =
     (8 \<le> length s \<and> list_ex is_lower s \<and> list_ex is_upper s \<and> list_ex is_digit s)"

text \<open>An environment with these stand-ins and a toy digest in place of bcrypt, one
  librarian, one student, a store that holds them, and the same store with a librarians page
  that cannot be written.\<close>

definition example_env :: env where
  "example_env = \<lparr>toLowerCase = ascii_toLowerCase, isLength = ascii_isLength,
     isStrongPassword = ascii_isStrongPassword,
     uuidv4 = ''id-2'', bcrypt_hash = (\<lambda>s. ''hash:'' @ s),
     bcrypt_compare = (\<lambda>s h. h = ''hash:'' @ s),
     now_students = ''1/1/2025, 9:00:00 AM'', now_librarians = ''1/1/2025, 9:00:01 AM''\<rparr>"

definition alice :: librarian where
  "alice = \<lparr>lib_id = ''id-1'', lib_username = ''alice'', lib_fullname = ''Alice A'',
     lib_passwordHash = ''hash:Secret123''\<rparr>"

definition ann :: student where
  "ann = \<lparr>stud_id = ''id-1'', stud_name = ''Ann Lee'', stud_grade = ''7a'',
     stud_section = ''Rose'', stud_passHash = ''hash:1234''\<rparr>"

definition example_fs :: fsys where
  "example_fs = \<lparr>lib_json = Some [alice], stud_json = Some [ann], students_list = None,
     librarians_list = None, unwritable = (\<lambda>p. False)\<rparr>"

definition stale_fs :: fsys where
  "stale_fs = example_fs\<lparr>unwritable := (\<lambda>p. p = LIBRARIANS_LIST)\<rparr>"


section \<open>Auxiliary facts\<close>

subsection \<open>Escaping\<close>

lemma replaceAll_Nil: "replaceAll c r [] = []" by (simp add: replaceAll_def)
lemma replaceAll_Cons: "replaceAll c r (x # xs) = (if x = c then r else [x]) @ replaceAll c r xs"
  by (simp add: replaceAll_def)
lemma replaceAll_append: "replaceAll c r (xs @ ys) = replaceAll c r xs @ replaceAll c r ys"
  by (simp add: replaceAll_def)

lemma escapeHtml_Nil: "escapeHtml [] = []" by (simp add: escapeHtml_def)
lemma escapeHtml_Cons: "escapeHtml (c # cs) = escape_char c @ escapeHtml cs"
  by (simp add: escapeHtml_def escape_char_def replaceAll_Cons replaceAll_append replaceAll_Nil)

lemma escapeHtml_concat: "escapeHtml s = concat (map escape_char s)"
  by (induction s) (simp_all add: escapeHtml_Nil escapeHtml_Cons)

lemma escapeHtml_set: "set (escapeHtml s) \<inter> {CHR ''<'', CHR ''>'', CHR 0x22} = {}"
  by (induction s) (auto simp: escapeHtml_Nil escapeHtml_Cons escape_char_def)

lemma amps_escaped_escapeHtml: "amps_escaped (escapeHtml s)"
  by (induction s) (auto simp: escapeHtml_Nil escapeHtml_Cons escape_char_def entity_start_def)

subsection \<open>Headings of the cards\<close>

lemma escapeHtml_no_lt: "CHR ''<'' \<notin> set (escapeHtml s)"
  using escapeHtml_set [of s] by auto

lemma h3_skip_text: "CHR ''<'' \<notin> set xs \<Longrightarrow> h3_texts (xs @ ys) = h3_texts ys"
  by (induction xs) (auto simp: h3_texts_def)

lemma takeWhile_text: "CHR ''<'' \<notin> set xs \<Longrightarrow> takeWhile (\<lambda>x. x \<noteq> CHR ''<'') (xs @ CHR ''<'' # ys) = xs"
  by (induction xs) auto

lemma h3_student_card:
  "h3_texts (student_card s @ rest) = escapeHtml (stud_name s) # h3_texts rest"
proof -
  have a: "h3_texts (student_card_1 @ escapeHtml (stud_name s) @ student_card_2 @ ys)
        = escapeHtml (stud_name s) # h3_texts (escapeHtml (stud_name s) @ student_card_2 @ ys)" for ys
    by (simp add: h3_texts_def student_card_1_def student_card_2_def takeWhile_text escapeHtml_no_lt)
  have b: "h3_texts (student_card_2 @ ys) = h3_texts ys" for ys
    by (simp add: h3_texts_def student_card_2_def)
  have c: "h3_texts (student_card_3 @ ys) = h3_texts ys" for ys
    by (simp add: h3_texts_def student_card_3_def)
  have d: "h3_texts (student_card_4 @ ys) = h3_texts ys" for ys
    by (simp add: h3_texts_def student_card_4_def)
  show ?thesis
    by (simp add: student_card_def a b c d h3_skip_text escapeHtml_no_lt)
qed

lemma h3_students_cards:
  "h3_texts (students_cardsHtml studs @ rest) = map (\<lambda>s. escapeHtml (stud_name s)) studs @ h3_texts rest"
proof (induction studs)
  case Nil
  then show ?case by (simp add: students_cardsHtml_def)
next
  case (Cons s studs)
  show ?case
  proof (cases studs)
    case Nil
    then show ?thesis by (simp add: students_cardsHtml_def h3_student_card)
  next
    case (Cons t ts)
    have nl: "h3_texts (CHR 0x0A # ys) = h3_texts ys" for ys
      by (simp add: h3_texts_def)
    from Cons Cons.IH show ?thesis
      by (simp add: students_cardsHtml_def h3_student_card nl)
  qed
qed

lemma student_card_nonempty: "student_card s \<noteq> []"
  by (simp add: student_card_def student_card_1_def)

subsection \<open>The routes, step by step\<close>



lemma join_Nil_iff: "(\<forall>x\<in>set xs. x \<noteq> []) \<Longrightarrow> join sep xs = [] \<longleftrightarrow> xs = []"
  by (induction sep xs rule: join.induct) auto

lemma students_cards_empty: "students_cardsHtml studs = [] \<longleftrightarrow> studs = []"
  unfolding students_cardsHtml_def
  by (subst join_Nil_iff) (auto simp: student_card_nonempty)

lemma ensureFiles_cases:
  "ensureFiles fs =
     (if lib_json fs = None then
        (if unwritable fs LIB_FILE then (Inl (WriteFailed LIB_FILE), fs)
         else if stud_json fs = None then
           (if unwritable fs STUD_FILE then (Inl (WriteFailed STUD_FILE), fs\<lparr>lib_json := Some []\<rparr>)
            else (Inr (), fs\<lparr>lib_json := Some [], stud_json := Some []\<rparr>))
         else (Inr (), fs\<lparr>lib_json := Some []\<rparr>))
      else if stud_json fs = None then
        (if unwritable fs STUD_FILE then (Inl (WriteFailed STUD_FILE), fs)
         else (Inr (), fs\<lparr>stud_json := Some []\<rparr>))
      else (Inr (), fs))"
  by (simp add: ensureFiles_def io_bind_def io_return_def writeJson_LIB_def writeJson_STUD_def)

lemma ensureFiles_ok:
  assumes "ensureFiles fs = (Inr u, fs1)"
  shows "lib_json fs1 = Some (case lib_json fs of None \<Rightarrow> [] | Some libs \<Rightarrow> libs)"
    and "stud_json fs1 = Some (case stud_json fs of None \<Rightarrow> [] | Some studs \<Rightarrow> studs)"
    and "students_list fs1 = students_list fs"
    and "librarians_list fs1 = librarians_list fs"
    and "unwritable fs1 = unwritable fs"
  using assms by (auto simp: ensureFiles_cases split: if_splits)

lemma ensureFiles_present:
  "lib_json fs = Some libs \<Longrightarrow> stud_json fs = Some studs \<Longrightarrow> ensureFiles fs = (Inr (), fs)"
  by (simp add: ensureFiles_cases)

lemma librarian_register_unfold:
  assumes "ensureFiles fs = (Inr (), fs1)" and "lib_json fs1 = Some libs"
    and "librarian_register_valid env (Some u) (Some f) (Some p)"
  shows "librarian_register env (Some u) (Some f) (Some p) fs =
     (if find (\<lambda>l. toLowerCase env (lib_username l) = toLowerCase env u) libs \<noteq> None
      then (Json_error 409 ''Username already exists'', fs1)
      else if unwritable fs1 LIB_FILE then (Rejected (WriteFailed LIB_FILE), fs1)
      else (case regenerateListFiles env
                  (fs1\<lparr>lib_json := Some (libs @ [\<lparr>lib_id = uuidv4 env, lib_username = u,
                            lib_fullname = f, lib_passwordHash = bcrypt_hash env p\<rparr>])\<rparr>) of
              (Inl e, fs3) \<Rightarrow> (Rejected e, fs3)
            | (Inr _, fs3) \<Rightarrow> (Json_user (LibrarianProfile (uuidv4 env) (Some u) (Some f)), fs3)))"
  using assms
  by (simp add: librarian_register_def respond_def io_bind_def io_return_def readJson_LIB_def
      writeJson_LIB_def sanitizeUser_def Let_def split: prod.splits sum.splits)


lemma regenerateListFiles_cases:
  assumes "stud_json fs = Some studs" and "lib_json fs = Some libs"
  shows "regenerateListFiles env fs =
     (if unwritable fs STUDENTS_LIST then (Inl (WriteFailed STUDENTS_LIST), fs)
      else if unwritable fs LIBRARIANS_LIST
      then (Inl (WriteFailed LIBRARIANS_LIST),
            fs\<lparr>students_list := Some (students_html (now_students env) studs)\<rparr>)
      else (Inr (), fs\<lparr>students_list := Some (students_html (now_students env) studs),
                        librarians_list := Some (librarians_html (now_librarians env) libs)\<rparr>))"
  using assms
  by (simp add: regenerateListFiles_def io_bind_def readJson_STUD_def readJson_LIB_def
      generateStudentsListPage_def generateLibrariansListPage_def)

lemma regenerateListFiles_json:
  assumes "regenerateListFiles env fs = (r, fs')"
  shows "lib_json fs' = lib_json fs" and "stud_json fs' = stud_json fs"
    and "unwritable fs' = unwritable fs"
  using assms
  by (auto simp: regenerateListFiles_def io_bind_def readJson_STUD_def readJson_LIB_def
      generateStudentsListPage_def generateLibrariansListPage_def
      split: option.splits if_splits)

lemma student_register_unfold:
  assumes "ensureFiles fs = (Inr (), fs1)" and "stud_json fs1 = Some studs"
    and "student_register_valid env (Some n) (Some g) (Some sec) (Some pc)"
  shows "student_register env (Some n) (Some g) (Some sec) (Some pc) fs =
     (if find (\<lambda>s. toLowerCase env (stud_name s) = toLowerCase env n \<and> stud_grade s = g \<and>
                     toLowerCase env (stud_section s) = toLowerCase env sec) studs \<noteq> None
      then (Json_error 409 ''Student account already exists'', fs1)
      else if unwritable fs1 STUD_FILE then (Rejected (WriteFailed STUD_FILE), fs1)
      else (case regenerateListFiles env
                  (fs1\<lparr>stud_json := Some (studs @ [\<lparr>stud_id = uuidv4 env, stud_name = n,
                            stud_grade = g, stud_section = sec,
                            stud_passHash = bcrypt_hash env pc\<rparr>])\<rparr>) of
              (Inl e, fs3) \<Rightarrow> (Rejected e, fs3)
            | (Inr _, fs3) \<Rightarrow>
                (Json_user (StudentProfile (uuidv4 env) (Some n) (Some g) (Some sec)), fs3)))"
  using assms
  by (simp add: student_register_def respond_def io_bind_def io_return_def readJson_STUD_def
      writeJson_STUD_def sanitizeUser_def Let_def split: prod.splits sum.splits)

lemma librarian_login_unfold:
  assumes "ensureFiles fs = (Inr (), fs1)" and "lib_json fs1 = Some libs"
  shows "librarian_login env username password fs =
     (case find (\<lambda>u. toLowerCase env (lib_username u) = toLowerCase env (or_empty username)) libs of
        None \<Rightarrow> (Json_error 401 ''Invalid credentials'', fs1)
      | Some user \<Rightarrow>
          (case password of
             None \<Rightarrow> (Rejected BcryptArguments, fs1)
           | Some p \<Rightarrow>
               if bcrypt_compare env p (lib_passwordHash user)
               then (Json_user (LibrarianProfile (lib_id user) (Some (lib_username user))
                                 (Some (lib_fullname user))), fs1)
               else (Json_error 401 ''Invalid credentials'', fs1)))"
  using assms
  by (simp add: librarian_login_def respond_def io_bind_def io_return_def io_throw_def
      readJson_LIB_def compare_def sanitizeUser_def split: option.splits)

lemma student_login_unfold:
  assumes "ensureFiles fs = (Inr (), fs1)" and "stud_json fs1 = Some studs"
  shows "student_login env name grade section passcode fs =
     (case find (\<lambda>s. toLowerCase env (stud_name s) = toLowerCase env (or_empty name) \<and>
                      Some (stud_grade s) = grade \<and>
                      toLowerCase env (stud_section s) = toLowerCase env (or_empty section)) studs of
        None \<Rightarrow> (Json_error 401 ''Invalid credentials'', fs1)
      | Some user \<Rightarrow>
          if or_empty passcode = [] \<or> bcrypt_compare env (or_empty passcode) (stud_passHash user)
          then (Json_user (StudentProfile (stud_id user) (Some (stud_name user))
                            (Some (stud_grade user)) (Some (stud_section user))), fs1)
          else (Json_error 401 ''Invalid credentials'', fs1))"
  using assms
  by (auto simp: student_login_def respond_def io_bind_def io_return_def io_throw_def
      readJson_STUD_def compare_def sanitizeUser_def or_empty_def split: option.splits)

lemma find_map: "find P (map f xs) = map_option f (find (P \<circ> f) xs)"
  by (induction xs) auto

lemma get_profile_unfold:
  assumes "ensureFiles fs = (Inr (), fs1)" and "lib_json fs1 = Some libs"
    and "stud_json fs1 = Some studs"
  shows "get_profile role ident fs =
     (if role = ''librarian''
      then (case find (\<lambda>l. lib_id l = ident) libs of
              None \<Rightarrow> (Json_error 404 ''Not found'', fs1)
            | Some l \<Rightarrow> (Json_user (LibrarianProfile (lib_id l) (Some (lib_username l))
                                      (Some (lib_fullname l))), fs1))
      else (case find (\<lambda>s. stud_id s = ident) studs of
              None \<Rightarrow> (Json_error 404 ''Not found'', fs1)
            | Some s \<Rightarrow> (Json_user (StudentProfile (stud_id s) (Some (stud_name s))
                                      (Some (stud_grade s)) (Some (stud_section s))), fs1)))"
  using assms
  by (auto simp: get_profile_def respond_def io_bind_def io_return_def readJson_def
      readJson_LIB_def readJson_STUD_def sanitizeUser_def find_map comp_def Let_def
      split: option.splits)

subsection \<open>Evaluating the concrete instances\<close>

lemma example_env_simps:
  "toLowerCase example_env = ascii_toLowerCase"
  "isLength example_env = ascii_isLength"
  "isStrongPassword example_env = ascii_isStrongPassword"
  by (simp_all add: example_env_def)

lemmas lower_defs = example_env_simps(1) ascii_toLowerCase_def ascii_toLowerCase_char_def
lemmas valid_defs = librarian_register_valid_def student_register_valid_def example_env_simps(2,3)
  ascii_isLength_def ascii_isStrongPassword_def matches_username_def or_empty_def
  is_lower_def is_upper_def is_digit_def


subsection \<open>What a successful registration has done\<close>

lemma librarian_register_success:
  assumes "librarian_register env username fullname password fs = (Json_user p, fs')"
  obtains u f pw fs1 where "username = Some u" and "fullname = Some f" and "password = Some pw"
    and "ensureFiles fs = (Inr (), fs1)"
    and "find (\<lambda>l. toLowerCase env (lib_username l) = toLowerCase env u) (librarians_of fs) = None"
    and "p = LibrarianProfile (uuidv4 env) (Some u) (Some f)"
    and "fs' = fs1\<lparr>lib_json := Some (librarians_of fs @ [\<lparr>lib_id = uuidv4 env, lib_username = u,
                       lib_fullname = f, lib_passwordHash = bcrypt_hash env pw\<rparr>]),
                   students_list := Some (students_html (now_students env) (students_of fs)),
                   librarians_list := Some (librarians_html (now_librarians env)
                      (librarians_of fs @ [\<lparr>lib_id = uuidv4 env, lib_username = u,
                       lib_fullname = f, lib_passwordHash = bcrypt_hash env pw\<rparr>]))\<rparr>"
    and "stud_json fs1 = Some (students_of fs)"
proof -
  obtain r1 fs1 where e: "ensureFiles fs = (r1, fs1)" by (cases "ensureFiles fs")
  have r1: "r1 = Inr ()"
    using assms e by (cases r1) (simp_all add: librarian_register_def respond_def io_bind_def)
  have valid: "librarian_register_valid env username fullname password"
    using assms e r1
    by (cases "librarian_register_valid env username fullname password")
       (simp_all add: librarian_register_def respond_def io_bind_def io_return_def)
  obtain u f pw where s: "username = Some u" "fullname = Some f" "password = Some pw"
    using assms e r1 valid
    by (cases username; cases fullname; cases password)
       (simp_all add: librarian_register_def respond_def io_bind_def io_return_def io_throw_def)
  let ?libs = "librarians_of fs" and ?studs = "students_of fs"
  let ?new = "\<lparr>lib_id = uuidv4 env, lib_username = u, lib_fullname = f,
                lib_passwordHash = bcrypt_hash env pw\<rparr>"
  from e r1 have e': "ensureFiles fs = (Inr (), fs1)" by simp
  have l1: "lib_json fs1 = Some ?libs" and s1: "stud_json fs1 = Some ?studs"
    using ensureFiles_ok(1,2) [OF e'] by (simp_all add: librarians_of_def students_of_def)
  note u = librarian_register_unfold [OF e' l1 valid [unfolded s]]
  have g: "regenerateListFiles env (fs1\<lparr>lib_json := Some (?libs @ [?new])\<rparr>) =
     (if unwritable fs1 STUDENTS_LIST
      then (Inl (WriteFailed STUDENTS_LIST), fs1\<lparr>lib_json := Some (?libs @ [?new])\<rparr>)
      else if unwritable fs1 LIBRARIANS_LIST
      then (Inl (WriteFailed LIBRARIANS_LIST),
            fs1\<lparr>lib_json := Some (?libs @ [?new]),
                students_list := Some (students_html (now_students env) ?studs)\<rparr>)
      else (Inr (), fs1\<lparr>lib_json := Some (?libs @ [?new]),
                        students_list := Some (students_html (now_students env) ?studs),
                        librarians_list := Some (librarians_html (now_librarians env) (?libs @ [?new]))\<rparr>))"
    by (subst regenerateListFiles_cases [where studs = ?studs and libs = "?libs @ [?new]"])
       (simp_all add: s1)
  from assms have a: "librarian_register env (Some u) (Some f) (Some pw) fs = (Json_user p, fs')"
    by (simp add: s)
  have fnd: "find (\<lambda>l. toLowerCase env (lib_username l) = toLowerCase env u) ?libs = None"
    using a by (cases "find (\<lambda>l. toLowerCase env (lib_username l) = toLowerCase env u) ?libs")
      (simp_all add: u)
  have res: "p = LibrarianProfile (uuidv4 env) (Some u) (Some f)
      \<and> fs' = fs1\<lparr>lib_json := Some (?libs @ [?new]),
                   students_list := Some (students_html (now_students env) ?studs),
                   librarians_list := Some (librarians_html (now_librarians env) (?libs @ [?new]))\<rparr>"
    using a fnd by (simp add: u g split: if_splits)
  show thesis
    using that [OF s e' fnd] res s1 by blast
qed

lemma student_register_success:
  assumes "student_register env name grade sec passcode fs = (Json_user p, fs')"
  obtains n g sc pc fs1 where "name = Some n" and "grade = Some g" and "sec = Some sc"
    and "passcode = Some pc"
    and "ensureFiles fs = (Inr (), fs1)"
    and "find (\<lambda>s. toLowerCase env (stud_name s) = toLowerCase env n \<and> stud_grade s = g \<and>
                    toLowerCase env (stud_section s) = toLowerCase env sc) (students_of fs) = None"
    and "p = StudentProfile (uuidv4 env) (Some n) (Some g) (Some sc)"
    and "fs' = fs1\<lparr>stud_json := Some (students_of fs @ [\<lparr>stud_id = uuidv4 env, stud_name = n,
                       stud_grade = g, stud_section = sc, stud_passHash = bcrypt_hash env pc\<rparr>]),
                   students_list := Some (students_html (now_students env)
                      (students_of fs @ [\<lparr>stud_id = uuidv4 env, stud_name = n,
                       stud_grade = g, stud_section = sc, stud_passHash = bcrypt_hash env pc\<rparr>])),
                   librarians_list := Some (librarians_html (now_librarians env) (librarians_of fs))\<rparr>"
    and "lib_json fs1 = Some (librarians_of fs)"
proof -
  obtain r1 fs1 where e: "ensureFiles fs = (r1, fs1)" by (cases "ensureFiles fs")
  have r1: "r1 = Inr ()"
    using assms e by (cases r1) (simp_all add: student_register_def respond_def io_bind_def)
  have valid: "student_register_valid env name grade sec passcode"
    using assms e r1
    by (cases "student_register_valid env name grade sec passcode")
       (simp_all add: student_register_def respond_def io_bind_def io_return_def)
  obtain n g sc pc where s: "name = Some n" "grade = Some g" "sec = Some sc" "passcode = Some pc"
    using assms e r1 valid
    by (cases name; cases grade; cases sec; cases passcode)
       (simp_all add: student_register_def respond_def io_bind_def io_return_def io_throw_def)
  let ?libs = "librarians_of fs" and ?studs = "students_of fs"
  let ?new = "\<lparr>stud_id = uuidv4 env, stud_name = n, stud_grade = g, stud_section = sc,
                stud_passHash = bcrypt_hash env pc\<rparr>"
  let ?P = "\<lambda>s. toLowerCase env (stud_name s) = toLowerCase env n \<and> stud_grade s = g \<and>
                 toLowerCase env (stud_section s) = toLowerCase env sc"
  from e r1 have e': "ensureFiles fs = (Inr (), fs1)" by simp
  have l1: "lib_json fs1 = Some ?libs" and s1: "stud_json fs1 = Some ?studs"
    using ensureFiles_ok(1,2) [OF e'] by (simp_all add: librarians_of_def students_of_def)
  note u = student_register_unfold [OF e' s1 valid [unfolded s]]
  have g: "regenerateListFiles env (fs1\<lparr>stud_json := Some (?studs @ [?new])\<rparr>) =
     (if unwritable fs1 STUDENTS_LIST
      then (Inl (WriteFailed STUDENTS_LIST), fs1\<lparr>stud_json := Some (?studs @ [?new])\<rparr>)
      else if unwritable fs1 LIBRARIANS_LIST
      then (Inl (WriteFailed LIBRARIANS_LIST),
            fs1\<lparr>stud_json := Some (?studs @ [?new]),
                students_list := Some (students_html (now_students env) (?studs @ [?new]))\<rparr>)
      else (Inr (), fs1\<lparr>stud_json := Some (?studs @ [?new]),
                        students_list := Some (students_html (now_students env) (?studs @ [?new])),
                        librarians_list := Some (librarians_html (now_librarians env) ?libs)\<rparr>))"
    by (subst regenerateListFiles_cases [where studs = "?studs @ [?new]" and libs = ?libs])
       (simp_all add: l1)
  from assms have a: "student_register env (Some n) (Some g) (Some sc) (Some pc) fs = (Json_user p, fs')"
    by (simp add: s)
  have fnd: "find ?P ?studs = None"
    using a by (cases "find ?P ?studs") (simp_all add: u)
  have res: "p = StudentProfile (uuidv4 env) (Some n) (Some g) (Some sc)
      \<and> fs' = fs1\<lparr>stud_json := Some (?studs @ [?new]),
                   students_list := Some (students_html (now_students env) (?studs @ [?new])),
                   librarians_list := Some (librarians_html (now_librarians env) ?libs)\<rparr>"
    using a fnd by (simp add: u g split: if_splits)
  show thesis
    using that [OF s e' fnd] res l1 by blast
qed

lemma find_append_last:
  "\<forall>x\<in>set xs. \<not> P x \<Longrightarrow> P y \<Longrightarrow> find P (xs @ [y]) = Some y"
  by (induction xs) auto

subsection \<open>Headings of the pages\<close>

lemma librarian_card_nonempty: "librarian_card l \<noteq> []"
  by (simp add: librarian_card_def librarian_card_1_def)

lemma librarians_cards_empty: "librarians_cardsHtml libs = [] \<longleftrightarrow> libs = []"
  unfolding librarians_cardsHtml_def
  by (subst join_Nil_iff) (auto simp: librarian_card_nonempty)

lemma h3_librarian_card:
  "h3_texts (librarian_card l @ rest)
     = escapeHtml (or_else (lib_fullname l) (lib_username l)) # h3_texts rest"
proof -
  have a: "h3_texts (librarian_card_1 @ escapeHtml x @ librarian_card_2 @ ys)
        = escapeHtml x # h3_texts (escapeHtml x @ librarian_card_2 @ ys)" for x ys
    by (simp add: h3_texts_def librarian_card_1_def librarian_card_2_def takeWhile_text
        escapeHtml_no_lt)
  have b: "h3_texts (librarian_card_2 @ ys) = h3_texts ys" for ys
    by (simp add: h3_texts_def librarian_card_2_def)
  have c: "h3_texts (librarian_card_3 @ ys) = h3_texts ys" for ys
    by (simp add: h3_texts_def librarian_card_3_def)
  show ?thesis
    by (simp add: librarian_card_def a b c h3_skip_text escapeHtml_no_lt)
qed

lemma h3_librarians_cards:
  "h3_texts (librarians_cardsHtml libs @ rest)
     = map (\<lambda>l. escapeHtml (or_else (lib_fullname l) (lib_username l))) libs @ h3_texts rest"
proof (induction libs)
  case Nil
  then show ?case by (simp add: librarians_cardsHtml_def)
next
  case (Cons l libs)
  show ?case
  proof (cases libs)
    case Nil
    then show ?thesis by (simp add: librarians_cardsHtml_def h3_librarian_card)
  next
    case (Cons t ts)
    have nl: "h3_texts (CHR 0x0A # ys) = h3_texts ys" for ys
      by (simp add: h3_texts_def)
    from Cons Cons.IH show ?thesis
      by (simp add: librarians_cardsHtml_def h3_librarian_card nl)
  qed
qed

lemma h3_skip_concat:
  "(\<forall>p\<in>set ps. \<forall>ys. h3_texts (p @ ys) = h3_texts ys) \<Longrightarrow>
     h3_texts (concat ps @ ys) = h3_texts ys"
  by (induction ps) simp_all

lemma h3_students_page_1: "h3_texts (students_page_1 @ ys) = h3_texts ys"
  unfolding students_page_1_def
  by (rule h3_skip_concat) (simp add: h3_texts_def)

lemma h3_students_page_2: "h3_texts (students_page_2 @ ys) = h3_texts ys"
  by (simp add: h3_texts_def students_page_2_def)

lemma h3_students_page_3: "h3_texts (students_page_3 @ ys) = h3_texts ys"
  by (simp add: h3_texts_def students_page_3_def)

lemma h3_students_page_4: "h3_texts (students_page_4 @ ys) = h3_texts ys"
  by (simp add: h3_texts_def students_page_4_def)

lemma h3_students_page_5: "h3_texts students_page_5 = []"
  by (simp add: h3_texts_def students_page_5_def)

lemma h3_librarians_page_1: "h3_texts (librarians_page_1 @ ys) = h3_texts ys"
  unfolding librarians_page_1_def
  by (rule h3_skip_concat) (simp add: h3_texts_def)

lemma h3_librarians_page_2: "h3_texts (librarians_page_2 @ ys) = h3_texts ys"
  by (simp add: h3_texts_def librarians_page_2_def)

lemma h3_librarians_page_3: "h3_texts (librarians_page_3 @ ys) = h3_texts ys"
  by (simp add: h3_texts_def librarians_page_3_def)

lemma h3_librarians_page_4: "h3_texts (librarians_page_4 @ ys) = h3_texts ys"
  by (simp add: h3_texts_def librarians_page_4_def)

lemma h3_librarians_page_5: "h3_texts librarians_page_5 = []"
  by (simp add: h3_texts_def librarians_page_5_def)

lemma h3_students_placeholder: "h3_texts (''<p>No student accounts yet.</p>'' @ ys) = h3_texts ys"
  by (simp add: h3_texts_def)

lemma h3_librarians_placeholder: "h3_texts (''<p>No librarian accounts yet.</p>'' @ ys) = h3_texts ys"
  by (simp add: h3_texts_def)

lemma h3_students_html:
  assumes "CHR ''<'' \<notin> set now"
  shows "h3_texts (students_html now studs) = map (\<lambda>s. escapeHtml (stud_name s)) studs"
proof -
  have tail: "h3_texts (students_page_4 @ now @ students_page_5) = []"
    by (simp add: h3_students_page_4 h3_skip_text [OF assms] h3_students_page_5)
  have mid: "h3_texts (or_else (students_cardsHtml studs) ''<p>No student accounts yet.</p>''
                @ students_page_4 @ now @ students_page_5)
           = map (\<lambda>s. escapeHtml (stud_name s)) studs"
  proof (cases "studs = []")
    case True
    then show ?thesis
      by (simp only: students_cards_empty [THEN iffD2] or_else_def if_True simp_thms
          h3_students_placeholder tail list.map)
  next
    case False
    then have "students_cardsHtml studs \<noteq> []" by (simp add: students_cards_empty)
    then show ?thesis
      by (simp only: or_else_def if_False h3_students_cards tail append_Nil2)
  qed
  have "students_html now studs
      = students_page_1 @ escapeHtml ORIGINAL_STUDENT_PAGE @ students_page_2
        @ escapeHtml ORIGINAL_LIBRARIAN_PAGE @ students_page_3
        @ or_else (students_cardsHtml studs) ''<p>No student accounts yet.</p>''
        @ students_page_4 @ now @ students_page_5"
    by (simp add: students_html_def)
  then show ?thesis
    by (simp only: h3_students_page_1 h3_students_page_2 h3_students_page_3
        h3_skip_text [OF escapeHtml_no_lt] mid)
qed

lemma h3_librarians_html:
  assumes "CHR ''<'' \<notin> set now"
  shows "h3_texts (librarians_html now libs)
           = map (\<lambda>l. escapeHtml (or_else (lib_fullname l) (lib_username l))) libs"
proof -
  have tail: "h3_texts (librarians_page_4 @ now @ librarians_page_5) = []"
    by (simp add: h3_librarians_page_4 h3_skip_text [OF assms] h3_librarians_page_5)
  have mid: "h3_texts (or_else (librarians_cardsHtml libs) ''<p>No librarian accounts yet.</p>''
                @ librarians_page_4 @ now @ librarians_page_5)
           = map (\<lambda>l. escapeHtml (or_else (lib_fullname l) (lib_username l))) libs"
  proof (cases "libs = []")
    case True
    then show ?thesis
      by (simp only: librarians_cards_empty [THEN iffD2] or_else_def if_True simp_thms
          h3_librarians_placeholder tail list.map)
  next
    case False
    then have "librarians_cardsHtml libs \<noteq> []" by (simp add: librarians_cards_empty)
    then show ?thesis
      by (simp only: or_else_def if_False h3_librarians_cards tail append_Nil2)
  qed
  have "librarians_html now libs
      = librarians_page_1 @ escapeHtml ORIGINAL_LIBRARIAN_PAGE @ librarians_page_2
        @ escapeHtml ORIGINAL_STUDENT_PAGE @ librarians_page_3
        @ or_else (librarians_cardsHtml libs) ''<p>No librarian accounts yet.</p>''
        @ librarians_page_4 @ now @ librarians_page_5"
    by (simp add: librarians_html_def)
  then show ?thesis
    by (simp only: h3_librarians_page_1 h3_librarians_page_2 h3_librarians_page_3
        h3_skip_text [OF escapeHtml_no_lt] mid)
qed

subsection \<open>The pages do not read the hash\<close>

lemma student_card_hash: "student_card (s\<lparr>stud_passHash := h\<rparr>) = student_card s"
  by (simp add: student_card_def)

lemma librarian_card_hash: "librarian_card (l\<lparr>lib_passwordHash := h\<rparr>) = librarian_card l"
  by (simp add: librarian_card_def)

lemma students_html_hash:
  "students_html now (map (\<lambda>s. s\<lparr>stud_passHash := h s\<rparr>) studs) = students_html now studs"
  by (simp add: students_html_def students_cardsHtml_def student_card_hash comp_def)

lemma librarians_html_hash:
  "librarians_html now (map (\<lambda>l. l\<lparr>lib_passwordHash := h l\<rparr>) libs) = librarians_html now libs"
  by (simp add: librarians_html_def librarians_cardsHtml_def librarian_card_hash comp_def)

subsection \<open>Escaping, read back\<close>

lemma unescapeHtml_escapeHtml: "unescapeHtml (escapeHtml s) = s"
  by (induction s) (auto simp: escapeHtml_Nil escapeHtml_Cons escape_char_def)

lemma filter_structural_escapeHtml: "filter structural (escapeHtml s) = []"
  using escapeHtml_set [of s] by (auto simp: filter_empty_conv structural_def)

lemma student_card_skeleton:
  "filter structural (student_card s)
     = filter structural (student_card_1 @ student_card_2 @ student_card_3 @ student_card_4)"
  by (simp add: student_card_def filter_structural_escapeHtml)

lemma librarian_card_skeleton:
  "filter structural (librarian_card l)
     = filter structural (librarian_card_1 @ librarian_card_2 @ librarian_card_3)"
  by (simp add: librarian_card_def filter_structural_escapeHtml)

section \<open>Registration\<close>

text \<open>
  Claim C1. A librarian registration that passes validation and whose username equals,
  after lower-casing, the username of a stored librarian is answered with status 409
  (DuplicateKey) and writes nothing: the files are left as \<open>ensureFiles\<close> found or created
  them, the stored librarian sequence is the one from before the attempt, and neither list
  page is touched.
\<close>

theorem librarian_register_duplicate:
  assumes "ensureFiles fs = (Inr (), fs1)" and "lib_json fs = Some libs"
    and "librarian_register_valid env (Some u) (Some f) (Some p)"
    and "\<exists>l\<in>set libs. toLowerCase env (lib_username l) = toLowerCase env u"
  shows "fst (librarian_register env (Some u) (Some f) (Some p) fs)
           = Json_error 409 ''Username already exists''
       \<and> DuplicateKey (fst (librarian_register env (Some u) (Some f) (Some p) fs))
       \<and> snd (librarian_register env (Some u) (Some f) (Some p) fs) = fs1
       \<and> lib_json (snd (librarian_register env (Some u) (Some f) (Some p) fs)) = Some libs
       \<and> students_list (snd (librarian_register env (Some u) (Some f) (Some p) fs)) = students_list fs
       \<and> librarians_list (snd (librarian_register env (Some u) (Some f) (Some p) fs)) = librarians_list fs"
proof -
  from assms(1,2) have l1: "lib_json fs1 = Some libs" by (simp add: ensureFiles_ok)
  have fnd: "find (\<lambda>l. toLowerCase env (lib_username l) = toLowerCase env u) libs \<noteq> None"
    using assms(4) by (auto simp: find_None_iff)
  have r: "librarian_register env (Some u) (Some f) (Some p) fs
             = (Json_error 409 ''Username already exists'', fs1)"
    using fnd by (simp add: librarian_register_unfold [OF assms(1) l1 assms(3)])
  show ?thesis
    by (simp add: r DuplicateKey_def l1 ensureFiles_ok [OF assms(1)])
qed

text \<open>Registering \<open>ALICE\<close> when \<open>alice\<close> is stored.\<close>

theorem librarian_register_duplicate_witness:
  "ensureFiles example_fs = (Inr (), example_fs)
   \<and> lib_json example_fs = Some [alice]
   \<and> librarian_register_valid example_env (Some ''ALICE'') (Some ''Alice B'') (Some ''Secret123'')
   \<and> (\<exists>l\<in>set [alice]. toLowerCase example_env (lib_username l) = toLowerCase example_env ''ALICE'')
   \<and> fst (librarian_register example_env (Some ''ALICE'') (Some ''Alice B'') (Some ''Secret123'') example_fs)
        = Json_error 409 ''Username already exists''
   \<and> snd (librarian_register example_env (Some ''ALICE'') (Some ''Alice B'') (Some ''Secret123'') example_fs)
        = example_fs
   \<and> lib_json (snd (librarian_register example_env (Some ''ALICE'') (Some ''Alice B'') (Some ''Secret123'') example_fs))
        = Some [alice]"
proof -
  have a: "ensureFiles example_fs = (Inr (), example_fs)"
    by (simp add: ensureFiles_cases example_fs_def)
  have b: "lib_json example_fs = Some [alice]" by (simp add: example_fs_def)
  have c: "librarian_register_valid example_env (Some ''ALICE'') (Some ''Alice B'') (Some ''Secret123'')"
    by (simp add: valid_defs)
  have d: "\<exists>l\<in>set [alice]. toLowerCase example_env (lib_username l) = toLowerCase example_env ''ALICE''"
    by (simp add: alice_def lower_defs)
  show ?thesis
    using librarian_register_duplicate [OF a b c d] a b c d by simp
qed

text \<open>
  Claim C2. The student uniqueness test lower-cases name and section and compares grade
  exactly. For a registration that passes validation: if some stored record has the same
  lower-cased name, the same grade and the same lower-cased section, the answer is status 409
  (DuplicateKey) and nothing is written; if every stored record that agrees on lower-cased
  name and section has a different grade (as when only the case of the grade differs), the
  answer is not DuplicateKey, and when the three writes succeed the registration succeeds and
  the record is appended to the stored sequence.
\<close>

theorem student_register_uniqueness:
  assumes "ensureFiles fs = (Inr (), fs1)" and "stud_json fs1 = Some studs"
    and "student_register_valid env (Some n) (Some g) (Some sec) (Some pc)"
  shows "((\<exists>s\<in>set studs. toLowerCase env (stud_name s) = toLowerCase env n \<and> stud_grade s = g \<and>
                          toLowerCase env (stud_section s) = toLowerCase env sec)
          \<longrightarrow> student_register env (Some n) (Some g) (Some sec) (Some pc) fs
                = (Json_error 409 ''Student account already exists'', fs1)
              \<and> DuplicateKey (fst (student_register env (Some n) (Some g) (Some sec) (Some pc) fs)))
       \<and> ((\<forall>s\<in>set studs. toLowerCase env (stud_name s) = toLowerCase env n \<and>
                           toLowerCase env (stud_section s) = toLowerCase env sec \<longrightarrow> stud_grade s \<noteq> g)
          \<longrightarrow> \<not> DuplicateKey (fst (student_register env (Some n) (Some g) (Some sec) (Some pc) fs))
              \<and> (\<not> unwritable fs STUD_FILE \<and> \<not> unwritable fs STUDENTS_LIST \<and>
                   \<not> unwritable fs LIBRARIANS_LIST
                  \<longrightarrow> fst (student_register env (Some n) (Some g) (Some sec) (Some pc) fs)
                        = Json_user (StudentProfile (uuidv4 env) (Some n) (Some g) (Some sec))
                      \<and> stud_json (snd (student_register env (Some n) (Some g) (Some sec) (Some pc) fs))
                        = Some (studs @ [\<lparr>stud_id = uuidv4 env, stud_name = n, stud_grade = g,
                                           stud_section = sec, stud_passHash = bcrypt_hash env pc\<rparr>])))"
proof -
  let ?P = "\<lambda>s. toLowerCase env (stud_name s) = toLowerCase env n \<and> stud_grade s = g \<and>
                 toLowerCase env (stud_section s) = toLowerCase env sec"
  let ?new = "\<lparr>stud_id = uuidv4 env, stud_name = n, stud_grade = g,
                stud_section = sec, stud_passHash = bcrypt_hash env pc\<rparr>"
  let ?fs2 = "fs1\<lparr>stud_json := Some (studs @ [?new])\<rparr>"
  note u = student_register_unfold [OF assms]
  have dup: "student_register env (Some n) (Some g) (Some sec) (Some pc) fs
               = (Json_error 409 ''Student account already exists'', fs1)"
    if "\<exists>s\<in>set studs. ?P s"
  proof -
    from that have "find ?P studs \<noteq> None" by (auto simp: find_None_iff)
    then show ?thesis by (simp add: u)
  qed
  have fresh: "find ?P studs = None"
    if "\<forall>s\<in>set studs. toLowerCase env (stud_name s) = toLowerCase env n \<and>
                        toLowerCase env (stud_section s) = toLowerCase env sec \<longrightarrow> stud_grade s \<noteq> g"
    using that by (auto simp: find_None_iff)
  have nodup: "\<not> DuplicateKey (fst (student_register env (Some n) (Some g) (Some sec) (Some pc) fs))"
    if "find ?P studs = None"
    using that by (simp add: u DuplicateKey_def split: prod.splits sum.splits)
  obtain l where l: "lib_json fs1 = Some l"
    using ensureFiles_ok(1) [OF assms(1)] by simp
  have ok: "student_register env (Some n) (Some g) (Some sec) (Some pc) fs
      = (Json_user (StudentProfile (uuidv4 env) (Some n) (Some g) (Some sec)),
         ?fs2\<lparr>students_list := Some (students_html (now_students env) (studs @ [?new])),
               librarians_list := Some (librarians_html (now_librarians env) l)\<rparr>)"
    if "find ?P studs = None" "\<not> unwritable fs STUD_FILE" "\<not> unwritable fs STUDENTS_LIST"
       "\<not> unwritable fs LIBRARIANS_LIST"
  proof -
    have "regenerateListFiles env ?fs2
        = (Inr (), ?fs2\<lparr>students_list := Some (students_html (now_students env) (studs @ [?new])),
               librarians_list := Some (librarians_html (now_librarians env) l)\<rparr>)"
      using that l by (subst regenerateListFiles_cases [where studs = "studs @ [?new]" and libs = l])
        (simp_all add: ensureFiles_ok(5) [OF assms(1)])
    with that show ?thesis by (simp add: u ensureFiles_ok(5) [OF assms(1)])
  qed
  show ?thesis
    using dup fresh nodup ok by (simp add: DuplicateKey_def)
qed

text \<open>With \<open>Ann Lee\<close>, grade \<open>7a\<close>, section \<open>Rose\<close> stored: \<open>ANN LEE\<close>, \<open>7a\<close>, \<open>rose\<close>
  collides, while \<open>Ann Lee\<close>, \<open>7A\<close>, \<open>Rose\<close> differs in the case of the grade only and is
  stored as a second record.\<close>

theorem student_register_uniqueness_witness:
  "ensureFiles example_fs = (Inr (), example_fs)
   \<and> stud_json example_fs = Some [ann]
   \<and> student_register_valid example_env (Some ''ANN LEE'') (Some ''7a'') (Some ''rose'') (Some ''4321'')
   \<and> (\<exists>s\<in>set [ann]. toLowerCase example_env (stud_name s) = toLowerCase example_env ''ANN LEE'' \<and> stud_grade s = ''7a'' \<and>
                       toLowerCase example_env (stud_section s) = toLowerCase example_env ''rose'')
   \<and> student_register example_env (Some ''ANN LEE'') (Some ''7a'') (Some ''rose'') (Some ''4321'') example_fs
        = (Json_error 409 ''Student account already exists'', example_fs)
   \<and> student_register_valid example_env (Some ''Ann Lee'') (Some ''7A'') (Some ''Rose'') (Some ''4321'')
   \<and> toLowerCase example_env ''7A'' = toLowerCase example_env (stud_grade ann)
   \<and> toLowerCase example_env (stud_name ann) = toLowerCase example_env ''Ann Lee''
   \<and> toLowerCase example_env (stud_section ann) = toLowerCase example_env ''Rose''
   \<and> stud_grade ann \<noteq> ''7A''
   \<and> \<not> unwritable example_fs STUD_FILE \<and> \<not> unwritable example_fs STUDENTS_LIST
   \<and> \<not> unwritable example_fs LIBRARIANS_LIST
   \<and> fst (student_register example_env (Some ''Ann Lee'') (Some ''7A'') (Some ''Rose'') (Some ''4321'') example_fs)
        = Json_user (StudentProfile ''id-2'' (Some ''Ann Lee'') (Some ''7A'') (Some ''Rose''))
   \<and> stud_json (snd (student_register example_env (Some ''Ann Lee'') (Some ''7A'') (Some ''Rose'') (Some ''4321'') example_fs))
        = Some [ann, \<lparr>stud_id = ''id-2'', stud_name = ''Ann Lee'', stud_grade = ''7A'',
                      stud_section = ''Rose'', stud_passHash = ''hash:4321''\<rparr>]"
proof -
  have a: "ensureFiles example_fs = (Inr (), example_fs)"
    by (simp add: ensureFiles_cases example_fs_def)
  have b: "stud_json example_fs = Some [ann]" by (simp add: example_fs_def)
  have c1: "student_register_valid example_env (Some ''ANN LEE'') (Some ''7a'') (Some ''rose'') (Some ''4321'')"
    by (simp add: valid_defs)
  have c2: "student_register_valid example_env (Some ''Ann Lee'') (Some ''7A'') (Some ''Rose'') (Some ''4321'')"
    by (simp add: valid_defs)
  have d1: "\<exists>s\<in>set [ann]. toLowerCase example_env (stud_name s) = toLowerCase example_env ''ANN LEE'' \<and> stud_grade s = ''7a'' \<and>
                       toLowerCase example_env (stud_section s) = toLowerCase example_env ''rose''"
    by (simp add: ann_def lower_defs)
  have d2: "\<forall>s\<in>set [ann]. toLowerCase example_env (stud_name s) = toLowerCase example_env ''Ann Lee'' \<and>
                       toLowerCase example_env (stud_section s) = toLowerCase example_env ''Rose'' \<longrightarrow> stud_grade s \<noteq> ''7A''"
    by (simp add: ann_def)
  have e: "toLowerCase example_env ''7A'' = toLowerCase example_env (stud_grade ann)"
    by (simp add: ann_def lower_defs)
  have w: "\<not> unwritable example_fs STUD_FILE" "\<not> unwritable example_fs STUDENTS_LIST"
    "\<not> unwritable example_fs LIBRARIANS_LIST"
    by (simp_all add: example_fs_def)
  have v: "uuidv4 example_env = ''id-2''" "bcrypt_hash example_env ''4321'' = ''hash:4321''"
    by (simp_all add: example_env_def)
  from student_register_uniqueness [OF a b c1] d1
  have r1: "student_register example_env (Some ''ANN LEE'') (Some ''7a'') (Some ''rose'') (Some ''4321'') example_fs
        = (Json_error 409 ''Student account already exists'', example_fs)"
    by blast
  from student_register_uniqueness [OF a b c2] d2 w
  have r2: "fst (student_register example_env (Some ''Ann Lee'') (Some ''7A'') (Some ''Rose'') (Some ''4321'') example_fs)
        = Json_user (StudentProfile ''id-2'' (Some ''Ann Lee'') (Some ''7A'') (Some ''Rose''))"
    and r3: "stud_json (snd (student_register example_env (Some ''Ann Lee'') (Some ''7A'') (Some ''Rose'') (Some ''4321'') example_fs))
        = Some [ann, \<lparr>stud_id = ''id-2'', stud_name = ''Ann Lee'', stud_grade = ''7A'',
                      stud_section = ''Rose'', stud_passHash = ''hash:4321''\<rparr>]"
    unfolding v by simp_all
  have d3: "toLowerCase example_env (stud_name ann) = toLowerCase example_env ''Ann Lee''"
    "toLowerCase example_env (stud_section ann) = toLowerCase example_env ''Rose''" "stud_grade ann \<noteq> ''7A''"
    by (simp_all add: ann_def lower_defs)
  show ?thesis
    using a b c1 c2 d1 d3 e w r1 r2 r3 by blast
qed

section \<open>Login\<close>

text \<open>
  Claim C3. Librarian login looks the username up after lower-casing both sides. When a
  record matches and the supplied password verifies against its hash, the answer is the
  sanitized profile of that record; when a record matches and the supplied password does not
  verify, the answer is status 401 with the message \<open>Invalid credentials\<close>; when no record
  matches, the answer is the very same status 401 with the same message, whatever the
  password field holds. No case writes to the store, so the two failures cannot be told
  apart.
\<close>

theorem librarian_login_outcomes:
  assumes "ensureFiles fs = (Inr (), fs1)" and "lib_json fs1 = Some libs"
  shows "(find (\<lambda>u. toLowerCase env (lib_username u) = toLowerCase env (or_empty username)) libs = Some user
            \<and> bcrypt_compare env p (lib_passwordHash user)
          \<longrightarrow> librarian_login env username (Some p) fs
                = (Json_user (LibrarianProfile (lib_id user) (Some (lib_username user))
                               (Some (lib_fullname user))), fs1))
       \<and> (find (\<lambda>u. toLowerCase env (lib_username u) = toLowerCase env (or_empty username)) libs = Some user
            \<and> \<not> bcrypt_compare env p (lib_passwordHash user)
          \<longrightarrow> librarian_login env username (Some p) fs
                = (Json_error 401 ''Invalid credentials'', fs1)
              \<and> InvalidCredentials (fst (librarian_login env username (Some p) fs)))
       \<and> (find (\<lambda>u. toLowerCase env (lib_username u) = toLowerCase env (or_empty username)) libs = None
          \<longrightarrow> librarian_login env username password fs
                = (Json_error 401 ''Invalid credentials'', fs1)
              \<and> InvalidCredentials (fst (librarian_login env username password fs)))"
  by (simp add: librarian_login_unfold [OF assms] InvalidCredentials_def)

text \<open>With \<open>alice\<close> stored: \<open>ALICE\<close> with her password is let in, \<open>ALICE\<close> with a wrong
  password and \<open>bob\<close> with any password get the same answer.\<close>

theorem librarian_login_outcomes_witness:
  "ensureFiles example_fs = (Inr (), example_fs)
   \<and> lib_json example_fs = Some [alice]
   \<and> find (\<lambda>u. toLowerCase example_env (lib_username u) = toLowerCase example_env (or_empty (Some ''ALICE''))) [alice] = Some alice
   \<and> bcrypt_compare example_env ''Secret123'' (lib_passwordHash alice)
   \<and> librarian_login example_env (Some ''ALICE'') (Some ''Secret123'') example_fs
        = (Json_user (LibrarianProfile ''id-1'' (Some ''alice'') (Some ''Alice A'')), example_fs)
   \<and> \<not> bcrypt_compare example_env ''wrong'' (lib_passwordHash alice)
   \<and> librarian_login example_env (Some ''ALICE'') (Some ''wrong'') example_fs
        = (Json_error 401 ''Invalid credentials'', example_fs)
   \<and> find (\<lambda>u. toLowerCase example_env (lib_username u) = toLowerCase example_env (or_empty (Some ''bob''))) [alice] = None
   \<and> librarian_login example_env (Some ''bob'') (Some ''Secret123'') example_fs
        = (Json_error 401 ''Invalid credentials'', example_fs)"
proof -
  have a: "ensureFiles example_fs = (Inr (), example_fs)"
    by (simp add: ensureFiles_cases example_fs_def)
  have b: "lib_json example_fs = Some [alice]" by (simp add: example_fs_def)
  have f1: "find (\<lambda>u. toLowerCase example_env (lib_username u) = toLowerCase example_env (or_empty (Some ''ALICE''))) [alice] = Some alice"
    by (simp add: alice_def lower_defs or_empty_def)
  have f2: "find (\<lambda>u. toLowerCase example_env (lib_username u) = toLowerCase example_env (or_empty (Some ''bob''))) [alice] = None"
    by (simp add: alice_def lower_defs or_empty_def)
  have c1: "bcrypt_compare example_env ''Secret123'' (lib_passwordHash alice)"
    by (simp add: example_env_def alice_def)
  have c2: "\<not> bcrypt_compare example_env ''wrong'' (lib_passwordHash alice)"
    by (simp add: example_env_def alice_def)
  have v: "lib_id alice = ''id-1''" "lib_username alice = ''alice''" "lib_fullname alice = ''Alice A''"
    by (simp_all add: alice_def)
  from librarian_login_outcomes [OF a b, where env = example_env and username = "Some ''ALICE''"
      and user = alice and p = "''Secret123''"] f1 c1
  have r1: "librarian_login example_env (Some ''ALICE'') (Some ''Secret123'') example_fs
        = (Json_user (LibrarianProfile ''id-1'' (Some ''alice'') (Some ''Alice A'')), example_fs)"
    unfolding v by blast
  from librarian_login_outcomes [OF a b, where env = example_env and username = "Some ''ALICE''"
      and user = alice and p = "''wrong''"] f1 c2
  have r2: "librarian_login example_env (Some ''ALICE'') (Some ''wrong'') example_fs
        = (Json_error 401 ''Invalid credentials'', example_fs)"
    by blast
  from librarian_login_outcomes [OF a b, where env = example_env and username = "Some ''bob''"
      and user = alice and p = "''x''" and password = "Some ''Secret123''"] f2
  have r3: "librarian_login example_env (Some ''bob'') (Some ''Secret123'') example_fs
        = (Json_error 401 ''Invalid credentials'', example_fs)"
    by blast
  show ?thesis
    using a b f1 f2 c1 c2 r1 r2 r3 by blast
qed

text \<open>
  Claim C5, as amended. Student login finds the record by lower-cased name, exact grade
  and lower-cased section. When the passcode field is absent or is the empty string, the
  matching record's sanitized profile is returned and the hash is never consulted (the
  answer is the same for every verdict \<open>bcrypt.compare\<close> could give); when a non-empty
  passcode is supplied, it is verified against the stored hash: a match returns the profile
  and a mismatch returns status 401 (InvalidCredentials).
\<close>

theorem student_login_outcomes:
  assumes "ensureFiles fs = (Inr (), fs1)" and "stud_json fs1 = Some studs"
    and "find (\<lambda>s. toLowerCase env (stud_name s) = toLowerCase env (or_empty name) \<and>
                    Some (stud_grade s) = grade \<and>
                    toLowerCase env (stud_section s) = toLowerCase env (or_empty sec)) studs = Some user"
  shows "(passcode = None \<or> passcode = Some []
          \<longrightarrow> student_login env name grade sec passcode fs
                = (Json_user (StudentProfile (stud_id user) (Some (stud_name user))
                               (Some (stud_grade user)) (Some (stud_section user))), fs1))
       \<and> (p \<noteq> [] \<and> bcrypt_compare env p (stud_passHash user)
          \<longrightarrow> student_login env name grade sec (Some p) fs
                = (Json_user (StudentProfile (stud_id user) (Some (stud_name user))
                               (Some (stud_grade user)) (Some (stud_section user))), fs1))
       \<and> (p \<noteq> [] \<and> \<not> bcrypt_compare env p (stud_passHash user)
          \<longrightarrow> student_login env name grade sec (Some p) fs
                = (Json_error 401 ''Invalid credentials'', fs1)
              \<and> InvalidCredentials (fst (student_login env name grade sec (Some p) fs)))"
  using assms(3)
  by (auto simp: student_login_unfold [OF assms(1,2)] InvalidCredentials_def or_empty_def)

text \<open>With \<open>Ann Lee\<close> stored under the passcode \<open>1234\<close>: no passcode is accepted, \<open>1234\<close> is
  accepted, \<open>9999\<close> is refused.\<close>

theorem student_login_outcomes_witness:
  "ensureFiles example_fs = (Inr (), example_fs)
   \<and> stud_json example_fs = Some [ann]
   \<and> find (\<lambda>s. toLowerCase example_env (stud_name s) = toLowerCase example_env (or_empty (Some ''ann lee'')) \<and>
                Some (stud_grade s) = Some ''7a'' \<and>
                toLowerCase example_env (stud_section s) = toLowerCase example_env (or_empty (Some ''ROSE''))) [ann] = Some ann
   \<and> student_login example_env (Some ''ann lee'') (Some ''7a'') (Some ''ROSE'') None example_fs
        = (Json_user (StudentProfile ''id-1'' (Some ''Ann Lee'') (Some ''7a'') (Some ''Rose'')), example_fs)
   \<and> bcrypt_compare example_env ''1234'' (stud_passHash ann)
   \<and> student_login example_env (Some ''ann lee'') (Some ''7a'') (Some ''ROSE'') (Some ''1234'') example_fs
        = (Json_user (StudentProfile ''id-1'' (Some ''Ann Lee'') (Some ''7a'') (Some ''Rose'')), example_fs)
   \<and> \<not> bcrypt_compare example_env ''9999'' (stud_passHash ann)
   \<and> student_login example_env (Some ''ann lee'') (Some ''7a'') (Some ''ROSE'') (Some ''9999'') example_fs
        = (Json_error 401 ''Invalid credentials'', example_fs)"
proof -
  have a: "ensureFiles example_fs = (Inr (), example_fs)"
    by (simp add: ensureFiles_cases example_fs_def)
  have b: "stud_json example_fs = Some [ann]" by (simp add: example_fs_def)
  have f: "find (\<lambda>s. toLowerCase example_env (stud_name s) = toLowerCase example_env (or_empty (Some ''ann lee'')) \<and>
                Some (stud_grade s) = Some ''7a'' \<and>
                toLowerCase example_env (stud_section s) = toLowerCase example_env (or_empty (Some ''ROSE''))) [ann] = Some ann"
    by (simp add: ann_def lower_defs or_empty_def)
  have c1: "bcrypt_compare example_env ''1234'' (stud_passHash ann)"
    by (simp add: example_env_def ann_def)
  have c2: "\<not> bcrypt_compare example_env ''9999'' (stud_passHash ann)"
    by (simp add: example_env_def ann_def)
  have v: "stud_id ann = ''id-1''" "stud_name ann = ''Ann Lee''" "stud_grade ann = ''7a''"
    "stud_section ann = ''Rose''"
    by (simp_all add: ann_def)
  from student_login_outcomes [OF a b f, where passcode = None and p = "''x''"]
  have r1: "student_login example_env (Some ''ann lee'') (Some ''7a'') (Some ''ROSE'') None example_fs
        = (Json_user (StudentProfile ''id-1'' (Some ''Ann Lee'') (Some ''7a'') (Some ''Rose'')), example_fs)"
    unfolding v by blast
  from student_login_outcomes [OF a b f, where passcode = None and p = "''1234''"] c1
  have r2: "student_login example_env (Some ''ann lee'') (Some ''7a'') (Some ''ROSE'') (Some ''1234'') example_fs
        = (Json_user (StudentProfile ''id-1'' (Some ''Ann Lee'') (Some ''7a'') (Some ''Rose'')), example_fs)"
    unfolding v by simp
  from student_login_outcomes [OF a b f, where passcode = None and p = "''9999''"] c2
  have r3: "student_login example_env (Some ''ann lee'') (Some ''7a'') (Some ''ROSE'') (Some ''9999'') example_fs
        = (Json_error 401 ''Invalid credentials'', example_fs)"
    by simp
  show ?thesis
    using a b f c1 c2 r1 r2 r3 by blast
qed

text \<open>The claim as first stated fails for the empty passcode: it is supplied, it does not
  verify against the stored hash, and the login is accepted all the same.\<close>

theorem student_login_empty_passcode_counterexample:
  "\<not> bcrypt_compare example_env [] (stud_passHash ann)
   \<and> fst (student_login example_env (Some ''Ann Lee'') (Some ''7a'') (Some ''Rose'') (Some []) example_fs)
       = Json_user (StudentProfile ''id-1'' (Some ''Ann Lee'') (Some ''7a'') (Some ''Rose''))
   \<and> \<not> InvalidCredentials
         (fst (student_login example_env (Some ''Ann Lee'') (Some ''7a'') (Some ''Rose'') (Some []) example_fs))"
proof -
  have a: "ensureFiles example_fs = (Inr (), example_fs)"
    by (simp add: ensureFiles_cases example_fs_def)
  have b: "stud_json example_fs = Some [ann]" by (simp add: example_fs_def)
  show ?thesis
    by (simp add: student_login_unfold [OF a b] InvalidCredentials_def or_empty_def ann_def
        example_env_def lower_defs)
qed

section \<open>Failure of the list pages\<close>

lemma librarian_render_failure:
  assumes "ensureFiles fs = (Inr (), fs1)" and "lib_json fs1 = Some libs"
    and "librarian_register_valid env (Some u) (Some f) (Some p)"
    and "find (\<lambda>l. toLowerCase env (lib_username l) = toLowerCase env u) libs = None"
    and "\<not> unwritable fs LIB_FILE"
    and "regenerateListFiles env
           (fs1\<lparr>lib_json := Some (libs @ [\<lparr>lib_id = uuidv4 env, lib_username = u,
                     lib_fullname = f, lib_passwordHash = bcrypt_hash env p\<rparr>])\<rparr>) = (Inl e, fs3)"
  shows "librarian_register env (Some u) (Some f) (Some p) fs = (Rejected e, fs3)
       \<and> lib_json fs3 = Some (libs @ [\<lparr>lib_id = uuidv4 env, lib_username = u,
                     lib_fullname = f, lib_passwordHash = bcrypt_hash env p\<rparr>])
       \<and> stud_json fs3 = stud_json fs1"
  using assms(4,5,6) regenerateListFiles_json [OF assms(6)]
  by (simp add: librarian_register_unfold [OF assms(1,2,3)] ensureFiles_ok(5) [OF assms(1)])

lemma student_render_failure:
  assumes "ensureFiles fs = (Inr (), fs1)" and "stud_json fs1 = Some studs"
    and "student_register_valid env (Some n) (Some g) (Some sec) (Some pc)"
    and "find (\<lambda>s. toLowerCase env (stud_name s) = toLowerCase env n \<and> stud_grade s = g \<and>
                    toLowerCase env (stud_section s) = toLowerCase env sec) studs = None"
    and "\<not> unwritable fs STUD_FILE"
    and "regenerateListFiles env
           (fs1\<lparr>stud_json := Some (studs @ [\<lparr>stud_id = uuidv4 env, stud_name = n,
                     stud_grade = g, stud_section = sec,
                     stud_passHash = bcrypt_hash env pc\<rparr>])\<rparr>) = (Inl e, fs3)"
  shows "student_register env (Some n) (Some g) (Some sec) (Some pc) fs = (Rejected e, fs3)
       \<and> stud_json fs3 = Some (studs @ [\<lparr>stud_id = uuidv4 env, stud_name = n,
                     stud_grade = g, stud_section = sec, stud_passHash = bcrypt_hash env pc\<rparr>])
       \<and> lib_json fs3 = lib_json fs1"
  using assms(4,5,6) regenerateListFiles_json [OF assms(6)]
  by (simp add: student_register_unfold [OF assms(1,2,3)] ensureFiles_ok(5) [OF assms(1)])

text \<open>
  Claim C4, as amended. If the regeneration of the list pages fails after the new record
  has been written, the record stays committed: the file of its kind holds the old sequence
  followed by the new record, the file of the other kind is as before, and nothing is rolled
  back. The request itself does not succeed: the handler's promise rejects with the error of
  the failed write and the success answer is never sent.
\<close>

theorem register_render_failure:
  "(ensureFiles fs = (Inr (), fs1) \<and> lib_json fs1 = Some libs
      \<and> librarian_register_valid env (Some u) (Some f) (Some p)
      \<and> find (\<lambda>l. toLowerCase env (lib_username l) = toLowerCase env u) libs = None
      \<and> \<not> unwritable fs LIB_FILE
      \<and> regenerateListFiles env
           (fs1\<lparr>lib_json := Some (libs @ [\<lparr>lib_id = uuidv4 env, lib_username = u,
                     lib_fullname = f, lib_passwordHash = bcrypt_hash env p\<rparr>])\<rparr>) = (Inl e, fs3)
    \<longrightarrow> librarian_register env (Some u) (Some f) (Some p) fs = (Rejected e, fs3)
        \<and> lib_json fs3 = Some (libs @ [\<lparr>lib_id = uuidv4 env, lib_username = u,
                     lib_fullname = f, lib_passwordHash = bcrypt_hash env p\<rparr>])
        \<and> stud_json fs3 = stud_json fs1)
   \<and> (ensureFiles fs = (Inr (), fs1) \<and> stud_json fs1 = Some studs
      \<and> student_register_valid env (Some n) (Some g) (Some sec) (Some pc)
      \<and> find (\<lambda>s. toLowerCase env (stud_name s) = toLowerCase env n \<and> stud_grade s = g \<and>
                   toLowerCase env (stud_section s) = toLowerCase env sec) studs = None
      \<and> \<not> unwritable fs STUD_FILE
      \<and> regenerateListFiles env
           (fs1\<lparr>stud_json := Some (studs @ [\<lparr>stud_id = uuidv4 env, stud_name = n,
                     stud_grade = g, stud_section = sec,
                     stud_passHash = bcrypt_hash env pc\<rparr>])\<rparr>) = (Inl e', fs3')
    \<longrightarrow> student_register env (Some n) (Some g) (Some sec) (Some pc) fs = (Rejected e', fs3')
        \<and> stud_json fs3' = Some (studs @ [\<lparr>stud_id = uuidv4 env, stud_name = n,
                     stud_grade = g, stud_section = sec, stud_passHash = bcrypt_hash env pc\<rparr>])
        \<and> lib_json fs3' = lib_json fs1)"
  using librarian_render_failure [where fs = fs and ?fs1.0 = fs1 and libs = libs and u = u
      and f = f and p = p and env = env and e = e and ?fs3.0 = fs3]
    student_render_failure [where fs = fs and ?fs1.0 = fs1 and studs = studs and n = n and g = g
      and sec = sec and pc = pc and env = env and e = e' and ?fs3.0 = fs3']
  by blast

text \<open>In the store whose librarians page cannot be written, registering the librarian
  \<open>bob\<close> or the student \<open>Ben Ode\<close> commits the record, refreshes the students page, and
  rejects.\<close>

theorem register_render_failure_witness:
  "ensureFiles stale_fs = (Inr (), stale_fs) \<and> lib_json stale_fs = Some [alice]
   \<and> librarian_register_valid example_env (Some ''bob'') (Some ''Bob B'') (Some ''Passw0rd'')
   \<and> find (\<lambda>l. toLowerCase example_env (lib_username l) = toLowerCase example_env ''bob'') [alice] = None
   \<and> \<not> unwritable stale_fs LIB_FILE
   \<and> fst (regenerateListFiles example_env
           (stale_fs\<lparr>lib_json := Some ([alice] @ [\<lparr>lib_id = uuidv4 example_env, lib_username = ''bob'',
                     lib_fullname = ''Bob B'', lib_passwordHash = bcrypt_hash example_env ''Passw0rd''\<rparr>])\<rparr>))
        = Inl (WriteFailed LIBRARIANS_LIST)
   \<and> fst (librarian_register example_env (Some ''bob'') (Some ''Bob B'') (Some ''Passw0rd'') stale_fs)
        = Rejected (WriteFailed LIBRARIANS_LIST)
   \<and> lib_json (snd (librarian_register example_env (Some ''bob'') (Some ''Bob B'') (Some ''Passw0rd'') stale_fs))
        = Some [alice, \<lparr>lib_id = ''id-2'', lib_username = ''bob'', lib_fullname = ''Bob B'',
                         lib_passwordHash = ''hash:Passw0rd''\<rparr>]
   \<and> stud_json stale_fs = Some [ann]
   \<and> student_register_valid example_env (Some ''Ben Ode'') (Some ''8'') (Some ''Oak'') (Some ''5678'')
   \<and> find (\<lambda>s. toLowerCase example_env (stud_name s) = toLowerCase example_env ''Ben Ode'' \<and> stud_grade s = ''8'' \<and>
                toLowerCase example_env (stud_section s) = toLowerCase example_env ''Oak'') [ann] = None
   \<and> \<not> unwritable stale_fs STUD_FILE
   \<and> fst (student_register example_env (Some ''Ben Ode'') (Some ''8'') (Some ''Oak'') (Some ''5678'') stale_fs)
        = Rejected (WriteFailed LIBRARIANS_LIST)
   \<and> stud_json (snd (student_register example_env (Some ''Ben Ode'') (Some ''8'') (Some ''Oak'') (Some ''5678'') stale_fs))
        = Some [ann, \<lparr>stud_id = ''id-2'', stud_name = ''Ben Ode'', stud_grade = ''8'',
                       stud_section = ''Oak'', stud_passHash = ''hash:5678''\<rparr>]"
proof -
  let ?bob = "\<lparr>lib_id = uuidv4 example_env, lib_username = ''bob'',
               lib_fullname = ''Bob B'', lib_passwordHash = bcrypt_hash example_env ''Passw0rd''\<rparr>"
  let ?ben = "\<lparr>stud_id = uuidv4 example_env, stud_name = ''Ben Ode'', stud_grade = ''8'',
               stud_section = ''Oak'', stud_passHash = bcrypt_hash example_env ''5678''\<rparr>"
  let ?fsL = "stale_fs\<lparr>lib_json := Some ([alice] @ [?bob])\<rparr>"
  let ?fsS = "stale_fs\<lparr>stud_json := Some ([ann] @ [?ben])\<rparr>"
  have a: "ensureFiles stale_fs = (Inr (), stale_fs)"
    by (simp add: ensureFiles_cases stale_fs_def example_fs_def)
  have b: "lib_json stale_fs = Some [alice]" "stud_json stale_fs = Some [ann]"
    by (simp_all add: stale_fs_def example_fs_def)
  have c: "librarian_register_valid example_env (Some ''bob'') (Some ''Bob B'') (Some ''Passw0rd'')"
    "student_register_valid example_env (Some ''Ben Ode'') (Some ''8'') (Some ''Oak'') (Some ''5678'')"
    by (simp_all add: valid_defs)
  have d: "find (\<lambda>l. toLowerCase example_env (lib_username l) = toLowerCase example_env ''bob'') [alice] = None"
    "find (\<lambda>s. toLowerCase example_env (stud_name s) = toLowerCase example_env ''Ben Ode'' \<and> stud_grade s = ''8'' \<and>
                toLowerCase example_env (stud_section s) = toLowerCase example_env ''Oak'') [ann] = None"
    by (simp_all add: alice_def ann_def lower_defs)
  have w: "\<not> unwritable stale_fs LIB_FILE" "\<not> unwritable stale_fs STUD_FILE"
    by (simp_all add: stale_fs_def example_fs_def)
  have gL: "regenerateListFiles example_env ?fsL
      = (Inl (WriteFailed LIBRARIANS_LIST),
         ?fsL\<lparr>students_list := Some (students_html (now_students example_env) [ann])\<rparr>)"
    by (subst regenerateListFiles_cases [where studs = "[ann]" and libs = "[alice] @ [?bob]"])
       (simp_all add: stale_fs_def example_fs_def)
  have gS: "regenerateListFiles example_env ?fsS
      = (Inl (WriteFailed LIBRARIANS_LIST),
         ?fsS\<lparr>students_list := Some (students_html (now_students example_env) ([ann] @ [?ben]))\<rparr>)"
    by (subst regenerateListFiles_cases [where studs = "[ann] @ [?ben]" and libs = "[alice]"])
       (simp_all add: stale_fs_def example_fs_def)
  have v: "uuidv4 example_env = ''id-2''" "bcrypt_hash example_env ''Passw0rd'' = ''hash:Passw0rd''"
    "bcrypt_hash example_env ''5678'' = ''hash:5678''"
    by (simp_all add: example_env_def)
  from register_render_failure [where fs = stale_fs and ?fs1.0 = stale_fs and libs = "[alice]"
      and u = "''bob''" and f = "''Bob B''" and p = "''Passw0rd''" and env = example_env
      and e = "WriteFailed LIBRARIANS_LIST"
      and ?fs3.0 = "?fsL\<lparr>students_list := Some (students_html (now_students example_env) [ann])\<rparr>"
      and studs = "[ann]" and n = "''Ben Ode''" and g = "''8''" and sec = "''Oak''" and pc = "''5678''"
      and e' = "WriteFailed LIBRARIANS_LIST"
      and fs3' = "?fsS\<lparr>students_list := Some (students_html (now_students example_env) ([ann] @ [?ben]))\<rparr>"]
    a b c d w gL gS
  have r: "librarian_register example_env (Some ''bob'') (Some ''Bob B'') (Some ''Passw0rd'') stale_fs
        = (Rejected (WriteFailed LIBRARIANS_LIST),
           ?fsL\<lparr>students_list := Some (students_html (now_students example_env) [ann])\<rparr>)"
    "student_register example_env (Some ''Ben Ode'') (Some ''8'') (Some ''Oak'') (Some ''5678'') stale_fs
        = (Rejected (WriteFailed LIBRARIANS_LIST),
           ?fsS\<lparr>students_list := Some (students_html (now_students example_env) ([ann] @ [?ben]))\<rparr>)"
    by blast+
  have g: "fst (regenerateListFiles example_env ?fsL) = Inl (WriteFailed LIBRARIANS_LIST)"
    by (simp only: gL fst_conv)
  have r1: "fst (librarian_register example_env (Some ''bob'') (Some ''Bob B'') (Some ''Passw0rd'') stale_fs)
        = Rejected (WriteFailed LIBRARIANS_LIST)"
    and r2: "fst (student_register example_env (Some ''Ben Ode'') (Some ''8'') (Some ''Oak'') (Some ''5678'') stale_fs)
        = Rejected (WriteFailed LIBRARIANS_LIST)"
    by (simp_all only: r fst_conv)
  have r3: "lib_json (snd (librarian_register example_env (Some ''bob'') (Some ''Bob B'') (Some ''Passw0rd'') stale_fs))
        = Some [alice, \<lparr>lib_id = ''id-2'', lib_username = ''bob'', lib_fullname = ''Bob B'',
                         lib_passwordHash = ''hash:Passw0rd''\<rparr>]"
    and r4: "stud_json (snd (student_register example_env (Some ''Ben Ode'') (Some ''8'') (Some ''Oak'') (Some ''5678'') stale_fs))
        = Some [ann, \<lparr>stud_id = ''id-2'', stud_name = ''Ben Ode'', stud_grade = ''8'',
                       stud_section = ''Oak'', stud_passHash = ''hash:5678''\<rparr>]"
    by (simp_all add: r v)
  show ?thesis
    using a b c d w g r1 r2 r3 r4 by blast
qed

text \<open>The claim as first stated fails there: the page generation has failed after the
  insert was committed, and the request is not answered with the new profile.\<close>

theorem register_render_failure_counterexample:
  "lib_json (snd (librarian_register example_env (Some ''bob'') (Some ''Bob B'') (Some ''Passw0rd'') stale_fs))
      = Some [alice, \<lparr>lib_id = ''id-2'', lib_username = ''bob'', lib_fullname = ''Bob B'',
                       lib_passwordHash = ''hash:Passw0rd''\<rparr>]
   \<and> librarians_list (snd (librarian_register example_env (Some ''bob'') (Some ''Bob B'') (Some ''Passw0rd'') stale_fs))
      = None
   \<and> fst (librarian_register example_env (Some ''bob'') (Some ''Bob B'') (Some ''Passw0rd'') stale_fs)
      = Rejected (WriteFailed LIBRARIANS_LIST)
   \<and> fst (librarian_register example_env (Some ''bob'') (Some ''Bob B'') (Some ''Passw0rd'') stale_fs)
      \<noteq> Json_user (LibrarianProfile ''id-2'' (Some ''bob'') (Some ''Bob B''))"
proof -
  have a: "ensureFiles stale_fs = (Inr (), stale_fs)"
    by (simp add: ensureFiles_cases stale_fs_def example_fs_def)
  have b: "lib_json stale_fs = Some [alice]"
    by (simp add: stale_fs_def example_fs_def)
  have c: "librarian_register_valid example_env (Some ''bob'') (Some ''Bob B'') (Some ''Passw0rd'')"
    by (simp add: valid_defs)
  have d: "find (\<lambda>l. toLowerCase example_env (lib_username l) = toLowerCase example_env ''bob'') [alice] = None"
    by (simp add: alice_def lower_defs)
  have g: "regenerateListFiles example_env
      (stale_fs\<lparr>lib_json := Some [alice, \<lparr>lib_id = ''id-2'', lib_username = ''bob'',
         lib_fullname = ''Bob B'', lib_passwordHash = ''hash:Passw0rd''\<rparr>]\<rparr>)
      = (Inl (WriteFailed LIBRARIANS_LIST),
         stale_fs\<lparr>lib_json := Some [alice, \<lparr>lib_id = ''id-2'', lib_username = ''bob'',
             lib_fullname = ''Bob B'', lib_passwordHash = ''hash:Passw0rd''\<rparr>],
           students_list := Some (students_html (now_students example_env) [ann])\<rparr>)"
    by (subst regenerateListFiles_cases [where studs = "[ann]"
          and libs = "[alice, \<lparr>lib_id = ''id-2'', lib_username = ''bob'',
             lib_fullname = ''Bob B'', lib_passwordHash = ''hash:Passw0rd''\<rparr>]"])
       (simp_all add: stale_fs_def example_fs_def)
  have v: "uuidv4 example_env = ''id-2''" "bcrypt_hash example_env ''Passw0rd'' = ''hash:Passw0rd''"
    by (simp_all add: example_env_def)
  have w: "\<not> unwritable stale_fs LIB_FILE" "librarians_list stale_fs = None"
    by (simp_all add: stale_fs_def example_fs_def)
  show ?thesis
    using d w by (simp add: librarian_register_unfold [OF a b c] v g)
qed

section \<open>Profile lookup\<close>

lemma librarian_roundtrip:
  assumes "librarian_register env username fullname password fs = (Json_user p, fs')"
    and "uuidv4 env \<notin> lib_id ` set (librarians_of fs)"
  shows "get_profile ''librarian'' (profile_id p) fs' = (Json_user p, fs')"
proof -
  from assms(1) obtain u f pw fs1 where
    p: "p = LibrarianProfile (uuidv4 env) (Some u) (Some f)"
    and fs': "fs' = fs1\<lparr>lib_json := Some (librarians_of fs @ [\<lparr>lib_id = uuidv4 env, lib_username = u,
                       lib_fullname = f, lib_passwordHash = bcrypt_hash env pw\<rparr>]),
                   students_list := Some (students_html (now_students env) (students_of fs)),
                   librarians_list := Some (librarians_html (now_librarians env)
                      (librarians_of fs @ [\<lparr>lib_id = uuidv4 env, lib_username = u,
                       lib_fullname = f, lib_passwordHash = bcrypt_hash env pw\<rparr>]))\<rparr>"
    and s1: "stud_json fs1 = Some (students_of fs)"
    by (rule librarian_register_success)
  let ?new = "\<lparr>lib_id = uuidv4 env, lib_username = u, lib_fullname = f,
                lib_passwordHash = bcrypt_hash env pw\<rparr>"
  have l': "lib_json fs' = Some (librarians_of fs @ [?new])"
    and s': "stud_json fs' = Some (students_of fs)"
    by (simp_all add: fs' s1)
  have e: "ensureFiles fs' = (Inr (), fs')"
    by (rule ensureFiles_present [OF l' s'])
  have fnd: "find (\<lambda>l. lib_id l = uuidv4 env) (librarians_of fs @ [?new]) = Some ?new"
  proof (rule find_append_last)
    show "\<forall>x\<in>set (librarians_of fs). \<not> lib_id x = uuidv4 env"
      using assms(2) by (metis imageI)
    show "lib_id ?new = uuidv4 env" by simp
  qed
  show ?thesis
    by (simp add: get_profile_unfold [OF e l' s'] p fnd)
qed

lemma student_roundtrip:
  assumes "student_register env name grade sec passcode fs = (Json_user p, fs')"
    and "uuidv4 env \<notin> stud_id ` set (students_of fs)"
    and "role \<noteq> ''librarian''"
  shows "get_profile role (profile_id p) fs' = (Json_user p, fs')"
proof -
  from assms(1) obtain n g sc pc fs1 where
    p: "p = StudentProfile (uuidv4 env) (Some n) (Some g) (Some sc)"
    and fs': "fs' = fs1\<lparr>stud_json := Some (students_of fs @ [\<lparr>stud_id = uuidv4 env, stud_name = n,
                       stud_grade = g, stud_section = sc, stud_passHash = bcrypt_hash env pc\<rparr>]),
                   students_list := Some (students_html (now_students env)
                      (students_of fs @ [\<lparr>stud_id = uuidv4 env, stud_name = n,
                       stud_grade = g, stud_section = sc, stud_passHash = bcrypt_hash env pc\<rparr>])),
                   librarians_list := Some (librarians_html (now_librarians env) (librarians_of fs))\<rparr>"
    and l1: "lib_json fs1 = Some (librarians_of fs)"
    by (rule student_register_success)
  let ?new = "\<lparr>stud_id = uuidv4 env, stud_name = n, stud_grade = g, stud_section = sc,
                stud_passHash = bcrypt_hash env pc\<rparr>"
  have s': "stud_json fs' = Some (students_of fs @ [?new])"
    and l': "lib_json fs' = Some (librarians_of fs)"
    by (simp_all add: fs' l1)
  have e: "ensureFiles fs' = (Inr (), fs')"
    by (rule ensureFiles_present [OF l' s'])
  have fnd: "find (\<lambda>s. stud_id s = uuidv4 env) (students_of fs @ [?new]) = Some ?new"
  proof (rule find_append_last)
    show "\<forall>x\<in>set (students_of fs). \<not> stud_id x = uuidv4 env"
      using assms(2) by (metis imageI)
    show "stud_id ?new = uuidv4 env" by simp
  qed
  show ?thesis
    using assms(3) by (simp add: get_profile_unfold [OF e l' s'] p fnd)
qed

text \<open>
  Claim C8. Round trip: when a registration of either kind succeeds and the identifier
  drawn for it is not the identifier of a record already stored for that kind (which is what
  \<open>uuidv4\<close> promises and the server does not check), a profile lookup with the returned
  identifier on the resulting store succeeds and returns exactly the profile that the
  registration returned: the same identifier and display fields, and no hash.
\<close>

theorem register_getById_roundtrip:
  "(librarian_register env username fullname password fs = (Json_user p, fs')
      \<and> uuidv4 env \<notin> lib_id ` set (librarians_of fs)
    \<longrightarrow> get_profile ''librarian'' (profile_id p) fs' = (Json_user p, fs'))
   \<and> (student_register env name grade sec passcode fs = (Json_user q, fs'')
      \<and> uuidv4 env \<notin> stud_id ` set (students_of fs)
    \<longrightarrow> get_profile ''student'' (profile_id q) fs'' = (Json_user q, fs''))"
  using librarian_roundtrip [of env username fullname password fs p fs']
    student_roundtrip [of env name grade sec passcode fs q fs'' "''student''"]
  by simp

text \<open>Registering \<open>bob\<close> and \<open>Ben Ode\<close> in the example store, then looking each up.\<close>

theorem register_getById_roundtrip_witness:
  "fst (librarian_register example_env (Some ''bob'') (Some ''Bob B'') (Some ''Passw0rd'') example_fs)
      = Json_user (LibrarianProfile ''id-2'' (Some ''bob'') (Some ''Bob B''))
   \<and> uuidv4 example_env \<notin> lib_id ` set (librarians_of example_fs)
   \<and> get_profile ''librarian'' ''id-2''
        (snd (librarian_register example_env (Some ''bob'') (Some ''Bob B'') (Some ''Passw0rd'') example_fs))
      = (Json_user (LibrarianProfile ''id-2'' (Some ''bob'') (Some ''Bob B'')),
         snd (librarian_register example_env (Some ''bob'') (Some ''Bob B'') (Some ''Passw0rd'') example_fs))
   \<and> fst (student_register example_env (Some ''Ben Ode'') (Some ''8'') (Some ''Oak'') (Some ''5678'') example_fs)
      = Json_user (StudentProfile ''id-2'' (Some ''Ben Ode'') (Some ''8'') (Some ''Oak''))
   \<and> uuidv4 example_env \<notin> stud_id ` set (students_of example_fs)
   \<and> get_profile ''student'' ''id-2''
        (snd (student_register example_env (Some ''Ben Ode'') (Some ''8'') (Some ''Oak'') (Some ''5678'') example_fs))
      = (Json_user (StudentProfile ''id-2'' (Some ''Ben Ode'') (Some ''8'') (Some ''Oak'')),
         snd (student_register example_env (Some ''Ben Ode'') (Some ''8'') (Some ''Oak'') (Some ''5678'') example_fs))"
proof -
  let ?rl = "librarian_register example_env (Some ''bob'') (Some ''Bob B'') (Some ''Passw0rd'') example_fs"
  let ?rs = "student_register example_env (Some ''Ben Ode'') (Some ''8'') (Some ''Oak'') (Some ''5678'') example_fs"
  have a: "ensureFiles example_fs = (Inr (), example_fs)"
    by (simp add: ensureFiles_cases example_fs_def)
  have b: "lib_json example_fs = Some [alice]" "stud_json example_fs = Some [ann]"
    by (simp_all add: example_fs_def)
  have c: "librarian_register_valid example_env (Some ''bob'') (Some ''Bob B'') (Some ''Passw0rd'')"
    "student_register_valid example_env (Some ''Ben Ode'') (Some ''8'') (Some ''Oak'') (Some ''5678'')"
    by (simp_all add: valid_defs)
  have d: "find (\<lambda>l. toLowerCase example_env (lib_username l) = toLowerCase example_env ''bob'') [alice] = None"
    "find (\<lambda>s. toLowerCase example_env (stud_name s) = toLowerCase example_env ''Ben Ode'' \<and> stud_grade s = ''8'' \<and>
                toLowerCase example_env (stud_section s) = toLowerCase example_env ''Oak'') [ann] = None"
    by (simp_all add: alice_def ann_def lower_defs)
  have w: "unwritable example_fs = (\<lambda>p. False)" by (simp add: example_fs_def)
  have v: "uuidv4 example_env = ''id-2''" by (simp add: example_env_def)
  have rl: "fst ?rl = Json_user (LibrarianProfile ''id-2'' (Some ''bob'') (Some ''Bob B''))"
    using d(1) by (simp add: librarian_register_unfold [OF a b(1) c(1)] w v
        regenerateListFiles_cases [where studs = "[ann]"] b)
  have rs: "fst ?rs = Json_user (StudentProfile ''id-2'' (Some ''Ben Ode'') (Some ''8'') (Some ''Oak''))"
    using d(2) by (simp add: student_register_unfold [OF a b(2) c(2)] w v
        regenerateListFiles_cases [where libs = "[alice]"] b)
  have fl: "uuidv4 example_env \<notin> lib_id ` set (librarians_of example_fs)"
    by (simp add: librarians_of_def b v alice_def)
  have fs: "uuidv4 example_env \<notin> stud_id ` set (students_of example_fs)"
    by (simp add: students_of_def b v ann_def)
  have el: "?rl = (Json_user (LibrarianProfile ''id-2'' (Some ''bob'') (Some ''Bob B'')), snd ?rl)"
    using rl by (metis prod.collapse)
  have es: "?rs = (Json_user (StudentProfile ''id-2'' (Some ''Ben Ode'') (Some ''8'') (Some ''Oak'')), snd ?rs)"
    using rs by (metis prod.collapse)
  from register_getById_roundtrip [of example_env "Some ''bob''" "Some ''Bob B''" "Some ''Passw0rd''"
      example_fs "LibrarianProfile ''id-2'' (Some ''bob'') (Some ''Bob B'')" "snd ?rl"
      "Some ''Ben Ode''" "Some ''8''" "Some ''Oak''" "Some ''5678''"
      "StudentProfile ''id-2'' (Some ''Ben Ode'') (Some ''8'') (Some ''Oak'')" "snd ?rs"]
    el es fl fs
  have g: "get_profile ''librarian'' ''id-2'' (snd ?rl)
      = (Json_user (LibrarianProfile ''id-2'' (Some ''bob'') (Some ''Bob B'')), snd ?rl)"
    "get_profile ''student'' ''id-2'' (snd ?rs)
      = (Json_user (StudentProfile ''id-2'' (Some ''Ben Ode'') (Some ''8'') (Some ''Oak'')), snd ?rs)"
    by simp_all
  show ?thesis
    using rl rs fl fs g by blast
qed

text \<open>
  Claim C10. The profile lookup does not validate its role: for every role string other
  than \<open>librarian\<close> it searches the student records. If a student has the requested
  identifier, the answer is that student's sanitized profile (identifier, name, grade,
  section, role \<open>student\<close>); otherwise the answer is status 404 (NotFound). No other answer
  exists for an unknown role.
\<close>

theorem get_profile_unknown_role:
  assumes "ensureFiles fs = (Inr (), fs1)" and "stud_json fs1 = Some studs"
    and "role \<noteq> ''librarian''"
  shows "get_profile role ident fs =
     (case find (\<lambda>s. stud_id s = ident) studs of
        None \<Rightarrow> (Json_error 404 ''Not found'', fs1)
      | Some s \<Rightarrow> (Json_user (StudentProfile (stud_id s) (Some (stud_name s))
                                (Some (stud_grade s)) (Some (stud_section s))), fs1))
     \<and> (NotFound (fst (get_profile role ident fs)) \<longleftrightarrow> ident \<notin> stud_id ` set studs)"
proof -
  obtain libs where l: "lib_json fs1 = Some libs"
    using ensureFiles_ok(1) [OF assms(1)] by simp
  note u = get_profile_unfold [OF assms(1) l assms(2), of role ident]
  have "find (\<lambda>s. stud_id s = ident) studs = None \<longleftrightarrow> ident \<notin> stud_id ` set studs"
    by (auto simp: find_None_iff)
  with assms(3) show ?thesis
    by (auto simp: u NotFound_def split: option.splits)
qed

text \<open>In the example store the librarian \<open>alice\<close> and the student \<open>Ann Lee\<close> both have
  the identifier \<open>id-1\<close>: the roles \<open>admin\<close> and \<open>Librarian\<close> return the student, and an
  unknown identifier is not found.\<close>

theorem get_profile_unknown_role_witness:
  "ensureFiles example_fs = (Inr (), example_fs) \<and> stud_json example_fs = Some [ann]
   \<and> ''admin'' \<noteq> ''librarian'' \<and> ''Librarian'' \<noteq> ''librarian''
   \<and> get_profile ''admin'' ''id-1'' example_fs
        = (Json_user (StudentProfile ''id-1'' (Some ''Ann Lee'') (Some ''7a'') (Some ''Rose'')), example_fs)
   \<and> get_profile ''Librarian'' ''id-1'' example_fs
        = (Json_user (StudentProfile ''id-1'' (Some ''Ann Lee'') (Some ''7a'') (Some ''Rose'')), example_fs)
   \<and> get_profile ''admin'' ''id-9'' example_fs = (Json_error 404 ''Not found'', example_fs)
   \<and> NotFound (fst (get_profile ''admin'' ''id-9'' example_fs))"
proof -
  have a: "ensureFiles example_fs = (Inr (), example_fs)"
    by (simp add: ensureFiles_cases example_fs_def)
  have b: "stud_json example_fs = Some [ann]" by (simp add: example_fs_def)
  have n: "''admin'' \<noteq> ''librarian''" "''Librarian'' \<noteq> ''librarian''" by simp_all
  have f: "find (\<lambda>s. stud_id s = ''id-1'') [ann] = Some ann"
    "find (\<lambda>s. stud_id s = ''id-9'') [ann] = None"
    by (simp_all add: ann_def)
  have v: "stud_id ann = ''id-1''" "stud_name ann = ''Ann Lee''" "stud_grade ann = ''7a''"
    "stud_section ann = ''Rose''"
    by (simp_all add: ann_def)
  have i: "''id-9'' \<notin> stud_id ` set [ann]" by (simp add: ann_def)
  from get_profile_unknown_role [OF a b n(1), of "''id-1''"]
  have r1: "get_profile ''admin'' ''id-1'' example_fs
        = (Json_user (StudentProfile ''id-1'' (Some ''Ann Lee'') (Some ''7a'') (Some ''Rose'')), example_fs)"
    by (simp only: f option.case v)
  from get_profile_unknown_role [OF a b n(2), of "''id-1''"]
  have r2: "get_profile ''Librarian'' ''id-1'' example_fs
        = (Json_user (StudentProfile ''id-1'' (Some ''Ann Lee'') (Some ''7a'') (Some ''Rose'')), example_fs)"
    by (simp only: f option.case v)
  note t = get_profile_unknown_role [OF a b n(1), of "''id-9''"]
  from t have r3: "get_profile ''admin'' ''id-9'' example_fs = (Json_error 404 ''Not found'', example_fs)"
    by (simp only: f option.case)
  from t i have r4: "NotFound (fst (get_profile ''admin'' ''id-9'' example_fs))"
    by blast
  show ?thesis
    using a b n r1 r2 r3 r4 by blast
qed

section \<open>The list pages after a registration\<close>

text \<open>
  Claim C9. After every successful registration, of a librarian or of a student, both
  list pages have been written anew, each from the full stored sequence of its kind as it
  stands after the insert: the students page is the rendering of all stored students and
  the librarians page the rendering of all stored librarians, the new record being the
  last of its kind and the sequence of the other kind being the one from before.
\<close>

theorem register_regenerates_both:
  "(librarian_register env username fullname password fs = (Json_user p, fs')
    \<longrightarrow> students_list fs' = Some (students_html (now_students env) (students_of fs'))
        \<and> librarians_list fs' = Some (librarians_html (now_librarians env) (librarians_of fs'))
        \<and> students_of fs' = students_of fs
        \<and> butlast (librarians_of fs') = librarians_of fs
        \<and> librarians_of fs' \<noteq> []
        \<and> lib_id (last (librarians_of fs')) = profile_id p)
   \<and> (student_register env name grade sec passcode fs = (Json_user q, fs'')
    \<longrightarrow> students_list fs'' = Some (students_html (now_students env) (students_of fs''))
        \<and> librarians_list fs'' = Some (librarians_html (now_librarians env) (librarians_of fs''))
        \<and> librarians_of fs'' = librarians_of fs
        \<and> butlast (students_of fs'') = students_of fs
        \<and> students_of fs'' \<noteq> []
        \<and> stud_id (last (students_of fs'')) = profile_id q)"
proof (intro conjI impI)
  assume a: "librarian_register env username fullname password fs = (Json_user p, fs')"
  from a obtain u f pw fs1 where
    p: "p = LibrarianProfile (uuidv4 env) (Some u) (Some f)"
    and fs': "fs' = fs1\<lparr>lib_json := Some (librarians_of fs @ [\<lparr>lib_id = uuidv4 env, lib_username = u,
                       lib_fullname = f, lib_passwordHash = bcrypt_hash env pw\<rparr>]),
                   students_list := Some (students_html (now_students env) (students_of fs)),
                   librarians_list := Some (librarians_html (now_librarians env)
                      (librarians_of fs @ [\<lparr>lib_id = uuidv4 env, lib_username = u,
                       lib_fullname = f, lib_passwordHash = bcrypt_hash env pw\<rparr>]))\<rparr>"
    and s1: "stud_json fs1 = Some (students_of fs)"
    by (rule librarian_register_success)
  have l: "librarians_of fs' = librarians_of fs @ [\<lparr>lib_id = uuidv4 env, lib_username = u,
                       lib_fullname = f, lib_passwordHash = bcrypt_hash env pw\<rparr>]"
    and s: "students_of fs' = students_of fs"
    by (simp_all add: fs' s1 librarians_of_def [of "fs1\<lparr>lib_json := _, students_list := _, librarians_list := _\<rparr>"]
        students_of_def [of "fs1\<lparr>lib_json := _, students_list := _, librarians_list := _\<rparr>"])
  show "students_list fs' = Some (students_html (now_students env) (students_of fs'))"
    unfolding s by (simp add: fs')
  show "librarians_list fs' = Some (librarians_html (now_librarians env) (librarians_of fs'))"
    unfolding l by (simp add: fs')
  show "students_of fs' = students_of fs" by (rule s)
  show "butlast (librarians_of fs') = librarians_of fs" by (simp add: l)
  show "librarians_of fs' \<noteq> []" by (simp add: l)
  show "lib_id (last (librarians_of fs')) = profile_id p" by (simp add: l p)
next
  assume a: "student_register env name grade sec passcode fs = (Json_user q, fs'')"
  from a obtain n g sc pc fs1 where
    q: "q = StudentProfile (uuidv4 env) (Some n) (Some g) (Some sc)"
    and fs'': "fs'' = fs1\<lparr>stud_json := Some (students_of fs @ [\<lparr>stud_id = uuidv4 env, stud_name = n,
                       stud_grade = g, stud_section = sc, stud_passHash = bcrypt_hash env pc\<rparr>]),
                   students_list := Some (students_html (now_students env)
                      (students_of fs @ [\<lparr>stud_id = uuidv4 env, stud_name = n,
                       stud_grade = g, stud_section = sc, stud_passHash = bcrypt_hash env pc\<rparr>])),
                   librarians_list := Some (librarians_html (now_librarians env) (librarians_of fs))\<rparr>"
    and l1: "lib_json fs1 = Some (librarians_of fs)"
    by (rule student_register_success)
  have s: "students_of fs'' = students_of fs @ [\<lparr>stud_id = uuidv4 env, stud_name = n,
                       stud_grade = g, stud_section = sc, stud_passHash = bcrypt_hash env pc\<rparr>]"
    and l: "librarians_of fs'' = librarians_of fs"
    by (simp_all add: fs'' l1 librarians_of_def [of "fs1\<lparr>stud_json := _, students_list := _, librarians_list := _\<rparr>"]
        students_of_def [of "fs1\<lparr>stud_json := _, students_list := _, librarians_list := _\<rparr>"])
  show "students_list fs'' = Some (students_html (now_students env) (students_of fs''))"
    unfolding s by (simp add: fs'')
  show "librarians_list fs'' = Some (librarians_html (now_librarians env) (librarians_of fs''))"
    unfolding l by (simp add: fs'')
  show "librarians_of fs'' = librarians_of fs" by (rule l)
  show "butlast (students_of fs'') = students_of fs" by (simp add: s)
  show "students_of fs'' \<noteq> []" by (simp add: s)
  show "stud_id (last (students_of fs'')) = profile_id q" by (simp add: s q)
qed

text \<open>Registering \<open>bob\<close>, then \<open>Ben Ode\<close>, in the example store: both pages are written
  each time.\<close>

theorem register_regenerates_both_witness:
  "fst (librarian_register example_env (Some ''bob'') (Some ''Bob B'') (Some ''Passw0rd'') example_fs)
      = Json_user (LibrarianProfile ''id-2'' (Some ''bob'') (Some ''Bob B''))
   \<and> students_list (snd (librarian_register example_env (Some ''bob'') (Some ''Bob B'') (Some ''Passw0rd'') example_fs))
      = Some (students_html (now_students example_env)
          (students_of (snd (librarian_register example_env (Some ''bob'') (Some ''Bob B'') (Some ''Passw0rd'') example_fs))))
   \<and> librarians_list (snd (librarian_register example_env (Some ''bob'') (Some ''Bob B'') (Some ''Passw0rd'') example_fs))
      = Some (librarians_html (now_librarians example_env)
          (librarians_of (snd (librarian_register example_env (Some ''bob'') (Some ''Bob B'') (Some ''Passw0rd'') example_fs))))
   \<and> students_of (snd (librarian_register example_env (Some ''bob'') (Some ''Bob B'') (Some ''Passw0rd'') example_fs))
      = [ann]
   \<and> butlast (librarians_of (snd (librarian_register example_env (Some ''bob'') (Some ''Bob B'') (Some ''Passw0rd'') example_fs)))
      = [alice]
   \<and> fst (student_register example_env (Some ''Ben Ode'') (Some ''8'') (Some ''Oak'') (Some ''5678'') example_fs)
      = Json_user (StudentProfile ''id-2'' (Some ''Ben Ode'') (Some ''8'') (Some ''Oak''))
   \<and> students_list (snd (student_register example_env (Some ''Ben Ode'') (Some ''8'') (Some ''Oak'') (Some ''5678'') example_fs))
      = Some (students_html (now_students example_env)
          (students_of (snd (student_register example_env (Some ''Ben Ode'') (Some ''8'') (Some ''Oak'') (Some ''5678'') example_fs))))
   \<and> librarians_list (snd (student_register example_env (Some ''Ben Ode'') (Some ''8'') (Some ''Oak'') (Some ''5678'') example_fs))
      = Some (librarians_html (now_librarians example_env)
          (librarians_of (snd (student_register example_env (Some ''Ben Ode'') (Some ''8'') (Some ''Oak'') (Some ''5678'') example_fs))))
   \<and> librarians_of (snd (student_register example_env (Some ''Ben Ode'') (Some ''8'') (Some ''Oak'') (Some ''5678'') example_fs))
      = [alice]
   \<and> butlast (students_of (snd (student_register example_env (Some ''Ben Ode'') (Some ''8'') (Some ''Oak'') (Some ''5678'') example_fs)))
      = [ann]"
proof -
  let ?rl = "librarian_register example_env (Some ''bob'') (Some ''Bob B'') (Some ''Passw0rd'') example_fs"
  let ?rs = "student_register example_env (Some ''Ben Ode'') (Some ''8'') (Some ''Oak'') (Some ''5678'') example_fs"
  have a: "ensureFiles example_fs = (Inr (), example_fs)"
    by (simp add: ensureFiles_cases example_fs_def)
  have b: "lib_json example_fs = Some [alice]" "stud_json example_fs = Some [ann]"
    by (simp_all add: example_fs_def)
  have c: "librarian_register_valid example_env (Some ''bob'') (Some ''Bob B'') (Some ''Passw0rd'')"
    "student_register_valid example_env (Some ''Ben Ode'') (Some ''8'') (Some ''Oak'') (Some ''5678'')"
    by (simp_all add: valid_defs)
  have d: "find (\<lambda>l. toLowerCase example_env (lib_username l) = toLowerCase example_env ''bob'') [alice] = None"
    "find (\<lambda>s. toLowerCase example_env (stud_name s) = toLowerCase example_env ''Ben Ode'' \<and> stud_grade s = ''8'' \<and>
                toLowerCase example_env (stud_section s) = toLowerCase example_env ''Oak'') [ann] = None"
    by (simp_all add: alice_def ann_def lower_defs)
  have w: "unwritable example_fs = (\<lambda>p. False)" by (simp add: example_fs_def)
  have v: "uuidv4 example_env = ''id-2''" by (simp add: example_env_def)
  have o: "students_of example_fs = [ann]" "librarians_of example_fs = [alice]"
    by (simp_all add: students_of_def librarians_of_def b)
  have rl: "fst ?rl = Json_user (LibrarianProfile ''id-2'' (Some ''bob'') (Some ''Bob B''))"
    using d(1) by (simp add: librarian_register_unfold [OF a b(1) c(1)] w v
        regenerateListFiles_cases [where studs = "[ann]"] b)
  have rs: "fst ?rs = Json_user (StudentProfile ''id-2'' (Some ''Ben Ode'') (Some ''8'') (Some ''Oak''))"
    using d(2) by (simp add: student_register_unfold [OF a b(2) c(2)] w v
        regenerateListFiles_cases [where libs = "[alice]"] b)
  have el: "?rl = (Json_user (LibrarianProfile ''id-2'' (Some ''bob'') (Some ''Bob B'')), snd ?rl)"
    using rl by (metis prod.collapse)
  have es: "?rs = (Json_user (StudentProfile ''id-2'' (Some ''Ben Ode'') (Some ''8'') (Some ''Oak'')), snd ?rs)"
    using rs by (metis prod.collapse)
  note t = register_regenerates_both [of example_env "Some ''bob''" "Some ''Bob B''" "Some ''Passw0rd''"
      example_fs "LibrarianProfile ''id-2'' (Some ''bob'') (Some ''Bob B'')" "snd ?rl"
      "Some ''Ben Ode''" "Some ''8''" "Some ''Oak''" "Some ''5678''"
      "StudentProfile ''id-2'' (Some ''Ben Ode'') (Some ''8'') (Some ''Oak'')" "snd ?rs", unfolded o]
  show ?thesis
    using t el es rl rs by blast
qed

section \<open>The rendered pages\<close>

lemma student_register_page:
  assumes "student_register env name grade sec passcode fs = (Json_user q, fs')"
    and "CHR ''<'' \<notin> set (now_students env)"
  shows "\<exists>page. students_list fs' = Some page
           \<and> h3_texts page = map (\<lambda>s. escapeHtml (stud_name s)) (students_of fs)
                               @ [escapeHtml (or_empty name)]"
proof -
  from assms(1) obtain n g sc pc fs1 where
    n: "name = Some n"
    and fs': "fs' = fs1\<lparr>stud_json := Some (students_of fs @ [\<lparr>stud_id = uuidv4 env, stud_name = n,
                       stud_grade = g, stud_section = sc, stud_passHash = bcrypt_hash env pc\<rparr>]),
                   students_list := Some (students_html (now_students env)
                      (students_of fs @ [\<lparr>stud_id = uuidv4 env, stud_name = n,
                       stud_grade = g, stud_section = sc, stud_passHash = bcrypt_hash env pc\<rparr>])),
                   librarians_list := Some (librarians_html (now_librarians env) (librarians_of fs))\<rparr>"
    by (rule student_register_success)
  show ?thesis
    by (simp add: fs' n or_empty_def h3_students_html [OF assms(2)])
qed

lemma librarian_register_page:
  assumes "librarian_register env username fullname password fs = (Json_user p, fs')"
    and "CHR ''<'' \<notin> set (now_librarians env)"
  shows "\<exists>page. librarians_list fs' = Some page
           \<and> h3_texts page
               = map (\<lambda>l. escapeHtml (or_else (lib_fullname l) (lib_username l))) (librarians_of fs)
                 @ [escapeHtml (or_else (or_empty fullname) (or_empty username))]"
proof -
  from assms(1) obtain u f pw fs1 where
    s: "username = Some u" "fullname = Some f"
    and fs': "fs' = fs1\<lparr>lib_json := Some (librarians_of fs @ [\<lparr>lib_id = uuidv4 env, lib_username = u,
                       lib_fullname = f, lib_passwordHash = bcrypt_hash env pw\<rparr>]),
                   students_list := Some (students_html (now_students env) (students_of fs)),
                   librarians_list := Some (librarians_html (now_librarians env)
                      (librarians_of fs @ [\<lparr>lib_id = uuidv4 env, lib_username = u,
                       lib_fullname = f, lib_passwordHash = bcrypt_hash env pw\<rparr>]))\<rparr>"
    by (rule librarian_register_success)
  show ?thesis
    by (simp add: fs' s or_empty_def h3_librarians_html [OF assms(2)])
qed

text \<open>
  Claim C6. Each list page has exactly one card per stored record, in the order of the
  stored sequence, and no card shows the hash. Read back from the page text, the card
  headings are the escaped names of the students (for librarians: the escaped full name, or
  the username when the full name is empty), one per record and in sequence order; the page
  is the same whatever the hash fields hold. After a successful registration the page of
  that kind lists the earlier records in their order, followed by the new one, so that N
  registrations give N cards in insertion order. The time stamp of the footer is taken to
  contain no \<open><\<close>.
\<close>

theorem pages_list_records_in_order:
  assumes "CHR ''<'' \<notin> set now"
  shows "h3_texts (students_html now studs) = map (\<lambda>s. escapeHtml (stud_name s)) studs
       \<and> length (h3_texts (students_html now studs)) = length studs
       \<and> students_html now (map (\<lambda>s. s\<lparr>stud_passHash := h s\<rparr>) studs) = students_html now studs
       \<and> h3_texts (librarians_html now libs)
           = map (\<lambda>l. escapeHtml (or_else (lib_fullname l) (lib_username l))) libs
       \<and> length (h3_texts (librarians_html now libs)) = length libs
       \<and> librarians_html now (map (\<lambda>l. l\<lparr>lib_passwordHash := k l\<rparr>) libs) = librarians_html now libs
       \<and> (student_register env name grade sec passcode fs = (Json_user q, fs')
            \<and> now_students env = now
          \<longrightarrow> (\<exists>page. students_list fs' = Some page
                 \<and> h3_texts page = map (\<lambda>s. escapeHtml (stud_name s)) (students_of fs)
                                     @ [escapeHtml (or_empty name)]))
       \<and> (librarian_register env username fullname password fs = (Json_user p, fs'')
            \<and> now_librarians env = now
          \<longrightarrow> (\<exists>page. librarians_list fs'' = Some page
                 \<and> h3_texts page
                     = map (\<lambda>l. escapeHtml (or_else (lib_fullname l) (lib_username l))) (librarians_of fs)
                       @ [escapeHtml (or_else (or_empty fullname) (or_empty username))]))"
  using assms student_register_page [of env name grade sec passcode fs q fs']
    librarian_register_page [of env username fullname password fs p fs'']
  by (simp add: h3_students_html h3_librarians_html students_html_hash librarians_html_hash)

text \<open>The pages of the example store, and of the store after the student \<open>Ben <Ode>\<close> has
  registered.\<close>

theorem pages_list_records_in_order_witness:
  "CHR ''<'' \<notin> set (now_students example_env)
   \<and> h3_texts (students_html (now_students example_env) [ann]) = [''Ann Lee'']
   \<and> students_html (now_students example_env) (map (\<lambda>s. s\<lparr>stud_passHash := ''x''\<rparr>) [ann])
       = students_html (now_students example_env) [ann]
   \<and> h3_texts (librarians_html (now_students example_env) [alice]) = [''Alice A'']
   \<and> fst (student_register example_env (Some ''Ben <Ode>'') (Some ''8'') (Some ''Oak'') (Some ''5678'') example_fs)
       = Json_user (StudentProfile ''id-2'' (Some ''Ben <Ode>'') (Some ''8'') (Some ''Oak''))
   \<and> (\<exists>page. students_list (snd (student_register example_env (Some ''Ben <Ode>'') (Some ''8'')
                                    (Some ''Oak'') (Some ''5678'') example_fs)) = Some page
         \<and> h3_texts page = [''Ann Lee'', ''Ben &lt;Ode&gt;''])"
proof -
  let ?rs = "student_register example_env (Some ''Ben <Ode>'') (Some ''8'') (Some ''Oak'') (Some ''5678'') example_fs"
  have n: "CHR ''<'' \<notin> set (now_students example_env)"
    by (simp add: example_env_def)
  have a: "ensureFiles example_fs = (Inr (), example_fs)"
    by (simp add: ensureFiles_cases example_fs_def)
  have b: "lib_json example_fs = Some [alice]" "stud_json example_fs = Some [ann]"
    by (simp_all add: example_fs_def)
  have c: "student_register_valid example_env (Some ''Ben <Ode>'') (Some ''8'') (Some ''Oak'') (Some ''5678'')"
    by (simp add: valid_defs)
  have d: "find (\<lambda>s. toLowerCase example_env (stud_name s) = toLowerCase example_env ''Ben <Ode>'' \<and> stud_grade s = ''8'' \<and>
                toLowerCase example_env (stud_section s) = toLowerCase example_env ''Oak'') [ann] = None"
    by (simp add: ann_def lower_defs)
  have w: "unwritable example_fs = (\<lambda>p. False)" by (simp add: example_fs_def)
  have v: "uuidv4 example_env = ''id-2''" by (simp add: example_env_def)
  have rs: "fst ?rs = Json_user (StudentProfile ''id-2'' (Some ''Ben <Ode>'') (Some ''8'') (Some ''Oak''))"
    using d by (simp add: student_register_unfold [OF a b(2) c] w v
        regenerateListFiles_cases [where libs = "[alice]"] b)
  have es: "?rs = (Json_user (StudentProfile ''id-2'' (Some ''Ben <Ode>'') (Some ''8'') (Some ''Oak'')), snd ?rs)"
    using rs by (metis prod.collapse)
  have e: "map (\<lambda>s. escapeHtml (stud_name s)) [ann] = [''Ann Lee'']"
    "map (\<lambda>l. escapeHtml (or_else (lib_fullname l) (lib_username l))) [alice] = [''Alice A'']"
    "escapeHtml (or_empty (Some ''Ben <Ode>'')) = ''Ben &lt;Ode&gt;''"
    by (simp_all add: ann_def alice_def escapeHtml_def replaceAll_def or_else_def or_empty_def)
  have o: "students_of example_fs = [ann]"
    by (simp add: students_of_def b)
  note t = pages_list_records_in_order [OF n, where studs = "[ann]" and libs = "[alice]"
      and h = "\<lambda>s. ''x''" and env = example_env and name = "Some ''Ben <Ode>''"
      and grade = "Some ''8''" and sec = "Some ''Oak''" and passcode = "Some ''5678''"
      and fs = example_fs and fs' = "snd ?rs"
      and q = "StudentProfile ''id-2'' (Some ''Ben <Ode>'') (Some ''8'') (Some ''Oak'')",
      unfolded e o]
  from t es have pg: "\<exists>page. students_list (snd ?rs) = Some page
         \<and> h3_texts page = [''Ann Lee'', ''Ben &lt;Ode&gt;'']"
    by simp
  from t have t1: "h3_texts (students_html (now_students example_env) [ann]) = [''Ann Lee'']"
    and t2: "students_html (now_students example_env) (map (\<lambda>s. s\<lparr>stud_passHash := ''x''\<rparr>) [ann])
       = students_html (now_students example_env) [ann]"
    and t3: "h3_texts (librarians_html (now_students example_env) [alice]) = [''Alice A'']"
    by blast+
  show ?thesis
    using n rs pg t1 t2 t3 by blast
qed

text \<open>
  Claim C7. Every user-supplied field that is written into a card goes through
  \<open>escapeHtml\<close>, and its output cannot open or close markup where it is placed (element text,
  and attribute values in double quotes): it contains no \<open><\<close>, no \<open>>\<close> and no double
  quote, and every ampersand in it begins one of the four character references that
  \<open>escapeHtml\<close> writes; read back, the references give the original text. Hence the sequence
  of tag and quote characters of a card is the same for all field values.
\<close>

theorem escapeHtml_neutralizes:
  "CHR ''<'' \<notin> set (escapeHtml s) \<and> CHR ''>'' \<notin> set (escapeHtml s)
   \<and> CHR 0x22 \<notin> set (escapeHtml s)
   \<and> amps_escaped (escapeHtml s)
   \<and> unescapeHtml (escapeHtml s) = s
   \<and> filter structural (student_card st) = filter structural (student_card st')
   \<and> filter structural (librarian_card l) = filter structural (librarian_card l')"
  using escapeHtml_set [of s]
  by (simp add: amps_escaped_escapeHtml unescapeHtml_escapeHtml student_card_skeleton
      librarian_card_skeleton)

text \<open>A name that tries to open a tag and an attribute.\<close>

theorem escapeHtml_neutralizes_witness:
  \<open>escapeHtml ''<b title="x">Tom & Jerry'' = ''&lt;b title=&quot;x&quot;&gt;Tom &amp; Jerry''
   \<and> CHR ''<'' \<notin> set ''&lt;b title=&quot;x&quot;&gt;Tom &amp; Jerry''
   \<and> amps_escaped ''&lt;b title=&quot;x&quot;&gt;Tom &amp; Jerry''
   \<and> unescapeHtml ''&lt;b title=&quot;x&quot;&gt;Tom &amp; Jerry'' = ''<b title="x">Tom & Jerry''
   \<and> filter structural (student_card ann)
       = filter structural (student_card (ann\<lparr>stud_name := ''<b title="x">Tom & Jerry''\<rparr>))\<close>
proof -
  have e: \<open>escapeHtml ''<b title="x">Tom & Jerry'' = ''&lt;b title=&quot;x&quot;&gt;Tom &amp; Jerry''\<close>
    by (simp add: escapeHtml_def replaceAll_def)
  note t = escapeHtml_neutralizes [where s = \<open>''<b title="x">Tom & Jerry''\<close> and st = ann
      and st' = \<open>ann\<lparr>stud_name := ''<b title="x">Tom & Jerry''\<rparr>\<close>, unfolded e]
  show ?thesis
    using e t by blast
qed

end
